theory Spec2Isabelle
  imports Complex_Main "HOL-Library.Product_Lexorder"
begin

section \<open>Exceptions\<close>

text \<open>
  Every Python exception the modelled code can raise is a value.  \<open>ClientError\<close> is
  botocore's exception: it carries the provider's error code (absent when the response has
  no \<open>Error.Code\<close>) and the rendered text; \<open>NotFoundError\<close> is the document store's answer to
  an update of a missing document.
\<close>

datatype exn =
    ClientError "string option" string
  | NotFoundError string
  | KeyError string
  | TypeError string
  | AttributeError string
  | IndexError string
  | ZeroDivisionError
  | ValueError string
  | OtherError string

fun exn_str :: "exn \<Rightarrow> string" where
  "exn_str (ClientError c m) = m"
| "exn_str (NotFoundError m) = m"
| "exn_str (KeyError m) = m"
| "exn_str (TypeError m) = m"
| "exn_str (AttributeError m) = m"
| "exn_str (IndexError m) = m"
| "exn_str ZeroDivisionError = ''division by zero''"
| "exn_str (ValueError m) = m"
| "exn_str (OtherError m) = m"

section \<open>ScaleOrchestrator (ec2\_scaling.py)\<close>

record step_entry =
  st_timestamp :: int
  st_step :: string
  st_percent_complete :: int
  st_status :: string
  st_message :: string

record scale_doc =
  d_instance_id :: string
  d_timestamp :: int
  d_status :: string
  d_steps :: "step_entry list option"
  d_lastUpdated :: "int option"

datatype ec2_call =
    StopInstances string
  | WaitInstanceStopped string
  | ModifyInstanceType string string
  | StartInstances string
  | WaitInstanceRunning string

text \<open>
  The world the orchestrator acts on: the \<open>scale_status_log\<close> index (document id to
  document), the cloud-control calls issued so far, and two counters that index the
  environment's answers (clock readings taken, update requests received).
\<close>

record world =
  es_docs :: "string \<rightharpoonup> scale_doc"
  ec2_calls :: "ec2_call list"
  clock_reads :: nat
  es_updates :: nat

text \<open>
  The environment: what \<open>datetime.now\<close> returns at each reading, which cloud-control call
  raises (and what), and at which update requests another client of the document store
  has just written \<open>status = canceled\<close> into the log.
\<close>

record env =
  clock :: "nat \<Rightarrow> int"
  ec2_raises :: "ec2_call \<Rightarrow> exn option"
  cancel_before :: "nat \<Rightarrow> bool"

type_synonym outcome = "exn option \<times> world"

definition seq :: "(world \<Rightarrow> outcome) \<Rightarrow> (world \<Rightarrow> outcome) \<Rightarrow> world \<Rightarrow> outcome" where
  "seq f g w = (case f w of (None, w') \<Rightarrow> g w' | (Some e, w') \<Rightarrow> (Some e, w'))"

definition mark_canceled :: "string \<Rightarrow> (string \<rightharpoonup> scale_doc) \<Rightarrow> (string \<rightharpoonup> scale_doc)" where
  "mark_canceled doc_id docs =
     (case docs doc_id of None \<Rightarrow> docs
      | Some d \<Rightarrow> docs(doc_id \<mapsto> d\<lparr>d_status := ''canceled''\<rparr>))"

text \<open>
  \<open>es_client.update(index, id, body={script})\<close>: the store first holds whatever the external
  writer did, then runs the script on the document; a missing document is an error (the
  request carries no upsert).
\<close>

definition es_update :: "env \<Rightarrow> string \<Rightarrow> (scale_doc \<Rightarrow> scale_doc) \<Rightarrow> world \<Rightarrow> outcome" where
  "es_update E doc_id script w =
     (let docs = (if cancel_before E (es_updates w) then mark_canceled doc_id (es_docs w)
                  else es_docs w);
          w1 = w\<lparr>es_docs := docs, es_updates := Suc (es_updates w)\<rparr>
      in case docs doc_id of
           None \<Rightarrow> (Some (NotFoundError doc_id), w1)
         | Some d \<Rightarrow> (None, w1\<lparr>es_docs := docs(doc_id \<mapsto> script d)\<rparr>))"

text \<open>The painless script of \<open>append_step\<close>.\<close>

definition painless_append :: "step_entry \<Rightarrow> string \<Rightarrow> scale_doc \<Rightarrow> scale_doc" where
  "painless_append entry status d =
     d\<lparr>d_steps := Some ((case d_steps d of None \<Rightarrow> [] | Some ss \<Rightarrow> ss) @ [entry]),
       d_status := status,
       d_lastUpdated := Some (st_timestamp entry)\<rparr>"

definition append_step ::
  "env \<Rightarrow> string \<Rightarrow> string \<Rightarrow> int \<Rightarrow> string \<Rightarrow> string \<Rightarrow> world \<Rightarrow> outcome" where
  "append_step E doc_id step percent_complete status message w =
     (let entry = \<lparr>st_timestamp = clock E (clock_reads w), st_step = step,
                    st_percent_complete = percent_complete, st_status = status,
                    st_message = message\<rparr>
      in es_update E doc_id (painless_append entry status)
           (w\<lparr>clock_reads := Suc (clock_reads w)\<rparr>))"

definition ec2_do :: "env \<Rightarrow> ec2_call \<Rightarrow> world \<Rightarrow> outcome" where
  "ec2_do E c w = (ec2_raises E c, w\<lparr>ec2_calls := ec2_calls w @ [c]\<rparr>)"

definition stop_instance :: "env \<Rightarrow> string \<Rightarrow> string \<Rightarrow> world \<Rightarrow> outcome" where
  "stop_instance E doc_id instance_id =
     seq (append_step E doc_id ''Stopping instance'' 10 ''in_progress'' '''')
    (seq (ec2_do E (StopInstances instance_id))
    (seq (ec2_do E (WaitInstanceStopped instance_id))
         (append_step E doc_id ''Instance stopped'' 30 ''in_progress'' '''')))"

definition change_instance_type :: "env \<Rightarrow> string \<Rightarrow> string \<Rightarrow> string \<Rightarrow> world \<Rightarrow> outcome" where
  "change_instance_type E doc_id instance_id instance_type =
     seq (append_step E doc_id ''Changing instance type'' 40 ''in_progress'' '''')
    (seq (ec2_do E (ModifyInstanceType instance_id instance_type))
         (append_step E doc_id ''Instance type changed'' 60 ''in_progress'' ''''))"

definition start_instance :: "env \<Rightarrow> string \<Rightarrow> string \<Rightarrow> world \<Rightarrow> outcome" where
  "start_instance E doc_id instance_id =
     seq (append_step E doc_id ''Starting instance'' 70 ''in_progress'' '''')
    (seq (ec2_do E (StartInstances instance_id))
    (seq (ec2_do E (WaitInstanceRunning instance_id))
         (append_step E doc_id ''Instance running'' 100 ''completed'' '''')))"

text \<open>
  \<open>scale_instance\<close>: the three phases inside \<open>try\<close>; the handler journals the failure and
  re-raises (an exception of the handler's own \<open>append_step\<close> replaces the original one).
\<close>

definition scale_instance :: "env \<Rightarrow> string \<Rightarrow> string \<Rightarrow> string \<Rightarrow> string \<Rightarrow> world \<Rightarrow> outcome" where
  "scale_instance E instance_id new_instance_type region es_doc_update_id w =
     (case seq (stop_instance E es_doc_update_id instance_id)
          (seq (change_instance_type E es_doc_update_id instance_id new_instance_type)
               (start_instance E es_doc_update_id instance_id)) w of
        (None, w') \<Rightarrow> (None, w')
      | (Some e, w') \<Rightarrow>
          (case append_step E es_doc_update_id ''Error occurred'' 0 ''failed'' (exn_str e) w' of
             (None, w'') \<Rightarrow> (Some e, w'')
           | (Some e2, w'') \<Rightarrow> (Some e2, w'')))"

text \<open>Reading the journal of one resize out of the world.\<close>

definition steps_of :: "world \<Rightarrow> string \<Rightarrow> step_entry list" where
  "steps_of w doc_id =
     (case es_docs w doc_id of None \<Rightarrow> []
      | Some d \<Rightarrow> (case d_steps d of None \<Rightarrow> [] | Some ss \<Rightarrow> ss))"

definition status_of :: "world \<Rightarrow> string \<Rightarrow> string option" where
  "status_of w doc_id = map_option d_status (es_docs w doc_id)"

definition journal :: "world \<Rightarrow> string \<Rightarrow> (string \<times> int \<times> string \<times> string) list" where
  "journal w doc_id =
     map (\<lambda>s. (st_step s, st_percent_complete s, st_status s, st_message s)) (steps_of w doc_id)"

text \<open>
  One or more operations take the world \<open>w\<close> to \<open>w'\<close>: the document is still there, the
  journal grew by \<open>js\<close> and the cloud-control calls by \<open>cs\<close>.
\<close>

definition advances ::
  "world \<Rightarrow> world \<Rightarrow> string \<Rightarrow> (string \<times> int \<times> string \<times> string) list \<Rightarrow> ec2_call list \<Rightarrow> bool" where
  "advances w w' doc_id js cs \<longleftrightarrow>
     es_docs w' doc_id \<noteq> None \<and> journal w' doc_id = journal w doc_id @ js \<and>
     ec2_calls w' = ec2_calls w @ cs"

text \<open>Concrete worlds and environments used to run the orchestrator.\<close>

definition ex_doc :: scale_doc where
  "ex_doc = \<lparr>d_instance_id = ''i-0a1'', d_timestamp = 0, d_status = ''canceled'',
             d_steps = Some [], d_lastUpdated = None\<rparr>"

definition ex_world :: world where
  "ex_world = \<lparr>es_docs = [''doc-1'' \<mapsto> ex_doc], ec2_calls = [], clock_reads = 0, es_updates = 0\<rparr>"

definition ex_env_cancel :: env where
  "ex_env_cancel = \<lparr>clock = (\<lambda>n. int n), ec2_raises = (\<lambda>c. None), cancel_before = (\<lambda>k. True)\<rparr>"

definition ex_env_modify_fails :: env where
  "ex_env_modify_fails =
     \<lparr>clock = (\<lambda>n. int n),
      ec2_raises = (\<lambda>c. case c of
          ModifyInstanceType i t \<Rightarrow>
            Some (ClientError (Some ''InvalidParameterValue'') ''Invalid value for instanceType'')
        | _ \<Rightarrow> None),
      cancel_before = (\<lambda>k. False)\<rparr>"

section \<open>Python values\<close>

text \<open>
  The dynamically typed data the engine walks over (agent snapshots, host documents) is a
  JSON-like value.  Numbers are exact rationals (Python's \<open>int\<close> and \<open>float\<close> without
  rounding), tuples are lists, a dict is an association list in insertion order.
\<close>

datatype pyval =
    PNone
  | PBool bool
  | PNum rat
  | PStr string
  | PList "pyval list"
  | PDict "(string \<times> pyval) list"

fun ebind :: "exn + 'a \<Rightarrow> ('a \<Rightarrow> exn + 'b) \<Rightarrow> exn + 'b" where
  "ebind (Inl e) f = Inl e"
| "ebind (Inr x) f = f x"

fun emap :: "('a \<Rightarrow> exn + 'b) \<Rightarrow> 'a list \<Rightarrow> exn + 'b list" where
  "emap f [] = Inr []"
| "emap f (x # xs) = ebind (f x) (\<lambda>y. ebind (emap f xs) (\<lambda>ys. Inr (y # ys)))"

fun efold :: "('a \<Rightarrow> 's \<Rightarrow> exn + 's) \<Rightarrow> 'a list \<Rightarrow> 's \<Rightarrow> exn + 's" where
  "efold f [] s = Inr s"
| "efold f (x # xs) s = ebind (f x s) (efold f xs)"

text \<open>\<open>bool(v)\<close>, \<open>isinstance(v, (int, float))\<close> with the number, \<open>v is None\<close>.\<close>

fun truthy :: "pyval \<Rightarrow> bool" where
  "truthy PNone = False"
| "truthy (PBool b) = b"
| "truthy (PNum x) = (x \<noteq> 0)"
| "truthy (PStr s) = (s \<noteq> [])"
| "truthy (PList xs) = (xs \<noteq> [])"
| "truthy (PDict kvs) = (kvs \<noteq> [])"

fun as_num :: "pyval \<Rightarrow> rat option" where
  "as_num (PNum x) = Some x"
| "as_num (PBool b) = Some (if b then 1 else 0)"
| "as_num _ = None"

text \<open>\<open>v.get(k, default)\<close>, \<open>v[k]\<close> with a string key, \<open>k in v\<close>, and iteration.\<close>

fun dict_get :: "pyval \<Rightarrow> string \<Rightarrow> pyval \<Rightarrow> exn + pyval" where
  "dict_get (PDict kvs) k dflt = Inr (case map_of kvs k of None \<Rightarrow> dflt | Some v \<Rightarrow> v)"
| "dict_get _ k dflt = Inl (AttributeError ''get'')"

fun subscript :: "pyval \<Rightarrow> string \<Rightarrow> exn + pyval" where
  "subscript (PDict kvs) k = (case map_of kvs k of None \<Rightarrow> Inl (KeyError k) | Some v \<Rightarrow> Inr v)"
| "subscript _ k = Inl (TypeError ''subscript'')"

fun iter_of :: "pyval \<Rightarrow> exn + pyval list" where
  "iter_of (PList xs) = Inr xs"
| "iter_of (PDict kvs) = Inr (map (\<lambda>(k, v). PStr k) kvs)"
| "iter_of (PStr s) = Inr (map (\<lambda>c. PStr [c]) s)"
| "iter_of _ = Inl (TypeError ''not iterable'')"

text \<open>
  Python's \<open>==\<close> on these values: numbers and booleans compare by value, lists
  element-wise, dicts as finite maps; values of different kinds are unequal.
\<close>

fun py_eq :: "pyval \<Rightarrow> pyval \<Rightarrow> bool" where
  "py_eq PNone PNone = True"
| "py_eq (PBool a) (PBool b) = (a = b)"
| "py_eq (PBool a) (PNum y) = ((if a then 1 else 0) = y)"
| "py_eq (PNum x) (PBool b) = (x = (if b then 1 else 0))"
| "py_eq (PNum x) (PNum y) = (x = y)"
| "py_eq (PStr s) (PStr t) = (s = t)"
| "py_eq (PList xs) (PList ys) = list_all2 py_eq xs ys"
| "py_eq (PDict a) (PDict b) =
     (length a = length b \<and>
      list_all (\<lambda>(k, v). case map_of b k of None \<Rightarrow> False | Some v' \<Rightarrow> py_eq v v') a)"
| "py_eq _ _ = False"

section \<open>RuleEvaluator (monitoring\_status.server\_status\_check)\<close>

text \<open>
  The rule document \<open>base_config["status_checks"]["fail_state"]\<close> is typed: a condition has
  its \<open>compare_logic\<close> and \<open>value\<close>, and optionally a \<open>description\<close> and a \<open>partition\<close>; a
  service's rules are a list of conditions or a dict from metric to conditions.  The
  snapshot data stays dynamically typed.
\<close>

record condition =
  c_compare_logic :: string
  c_value :: pyval
  c_description :: "string option"
  c_partition :: "string option"

datatype conf = ConfList "condition list" | ConfDict "(string \<times> condition list) list"

type_synonym fail_state = "(string \<times> conf) list"
type_synonym service_dict = "(string \<times> pyval) list"

text \<open>
  A recorded failure.  The description is the configured one or, where the source falls
  back to the f-string \<open>"{metric} {compare_logic} {value}"\<close>, its three ingredients.
\<close>

datatype descr = Descr string | DefaultDescr string string pyval

record finding =
  f_description :: descr
  f_result :: bool
  f_detail :: pyval

text \<open>
  \<open>final_result[service][key]\<close>; the inner key is a metric name, or for disks the
  condition's partition (\<open>None\<close> when the condition has none).
\<close>

type_synonym final_result = "(string \<times> string option) \<rightharpoonup> finding"

fun val_comp :: "pyval \<Rightarrow> exn + rat" where
  "val_comp (PNum x) = Inr x"
| "val_comp (PBool b) = Inr (if b then 1 else 0)"
| "val_comp (PList xs) = Inr (of_nat (length xs))"
| "val_comp (PStr s) = Inr (of_nat (length s))"
| "val_comp _ = Inl (TypeError ''Unsupported type for comparison'')"

definition compare :: "pyval \<Rightarrow> string \<Rightarrow> pyval \<Rightarrow> exn + bool" where
  "compare val logic threshold =
     ebind (val_comp val) (\<lambda>vc.
       if logic = ''gte'' then
         (case as_num threshold of None \<Rightarrow> Inl (TypeError ''>='') | Some t \<Rightarrow> Inr (vc \<ge> t))
       else if logic = ''lte'' then
         (case as_num threshold of None \<Rightarrow> Inl (TypeError ''<='') | Some t \<Rightarrow> Inr (vc \<le> t))
       else if logic = ''equals'' then
         Inr (py_eq val threshold \<or> py_eq (PNum vc) threshold)
       else if logic = ''not_equals'' then
         Inr (\<not> py_eq val threshold \<or> \<not> py_eq (PNum vc) threshold)
       else Inl (ValueError ''Unknown compare_logic''))"

definition record_match ::
  "string \<Rightarrow> string option \<Rightarrow> descr \<Rightarrow> pyval \<Rightarrow> final_result \<Rightarrow> final_result" where
  "record_match service key description val res =
     res((service, key) \<mapsto> \<lparr>f_description = description, f_result = True, f_detail = val\<rparr>)"

text \<open>
  The loop \<open>for condition in conditions: if [val is not None and] compare(...): record\<close>,
  which the source writes out four times (default bucket, cloudwatch, ram, dict-shaped
  services); the sites differ in the \<open>None\<close> guard and in the fallback description.  No
  site leaves the loop on a match.
\<close>

fun test_conditions ::
  "bool \<Rightarrow> (condition \<Rightarrow> descr) \<Rightarrow> string \<Rightarrow> string option \<Rightarrow> pyval \<Rightarrow>
   condition list \<Rightarrow> final_result \<Rightarrow> exn + final_result" where
  "test_conditions guard dflt service key val [] res = Inr res"
| "test_conditions guard dflt service key val (c # cs) res =
     (if guard \<and> val = PNone then test_conditions guard dflt service key val cs res
      else ebind (compare val (c_compare_logic c) (c_value c)) (\<lambda>hit.
        test_conditions guard dflt service key val cs
          (if hit then
             record_match service key
               (case c_description c of None \<Rightarrow> dflt c | Some d \<Rightarrow> Descr d) val res
           else res)))"

definition empty_descr :: "condition \<Rightarrow> descr" where
  "empty_descr c = Descr ''''"

definition fstring_descr :: "string \<Rightarrow> condition \<Rightarrow> descr" where
  "fstring_descr metric c = DefaultDescr metric (c_compare_logic c) (c_value c)"

text \<open>Part 1: the \<open>default\<close> bucket; the value is the last one found in the snapshot.\<close>

fun scan_default :: "string \<Rightarrow> service_dict list \<Rightarrow> pyval option \<Rightarrow> pyval option" where
  "scan_default metric [] found = found"
| "scan_default metric (sd # sds) found =
     scan_default metric sds (case map_of sd metric of None \<Rightarrow> found | Some v \<Rightarrow> Some v)"

definition check_default :: "fail_state \<Rightarrow> service_dict list \<Rightarrow> final_result \<Rightarrow> exn + final_result" where
  "check_default fs snapshot res =
     (case map_of fs ''default'' of
        None \<Rightarrow> Inr res
      | Some (ConfList cs) \<Rightarrow> Inl (AttributeError ''items'')
      | Some (ConfDict ms) \<Rightarrow>
          efold (\<lambda>(metric, conditions) r.
                   case scan_default metric snapshot None of
                     None \<Rightarrow> Inr r
                   | Some val \<Rightarrow>
                       test_conditions False empty_descr ''default'' (Some metric) val conditions r)
            ms res)"

text \<open>
  \<open>max(datapoints, key=lambda d: d.get("Timestamp", ""))\<close>: the first maximal element.
  Keys are numbers (timestamps) or strings; any other pair of keys is taken to be
  unordered, as a number against a string is.
\<close>

definition py_gt :: "pyval \<Rightarrow> pyval \<Rightarrow> exn + bool" where
  "py_gt a b =
     (case (as_num a, as_num b) of
        (Some x, Some y) \<Rightarrow> Inr (x > y)
      | _ \<Rightarrow> (case (a, b) of
                (PStr s, PStr t) \<Rightarrow> Inr (lexordp (\<lambda>c d. of_char c < (of_char d :: nat)) t s)
              | _ \<Rightarrow> Inl (TypeError ''>'')))"

fun max_scan :: "pyval \<Rightarrow> pyval \<Rightarrow> pyval list \<Rightarrow> exn + pyval" where
  "max_scan best_key best [] = Inr best"
| "max_scan best_key best (d # ds) =
     ebind (dict_get d ''Timestamp'' (PStr '''')) (\<lambda>k.
     ebind (py_gt k best_key) (\<lambda>g.
       if g then max_scan k d ds else max_scan best_key best ds))"

definition latest_point :: "pyval list \<Rightarrow> exn + pyval" where
  "latest_point ds =
     (case ds of
        [] \<Rightarrow> Inl (ValueError ''max() arg is an empty sequence'')
      | d # rest \<Rightarrow> ebind (dict_get d ''Timestamp'' (PStr '''')) (\<lambda>k. max_scan k d rest))"

definition check_cloudwatch ::
  "pyval \<Rightarrow> (string \<times> condition list) list \<Rightarrow> final_result \<Rightarrow> exn + final_result" where
  "check_cloudwatch data ms res =
     efold (\<lambda>(metric, conditions) r.
              ebind (dict_get data metric (PList [])) (\<lambda>datapoints.
                if \<not> truthy datapoints then Inr r
                else ebind (iter_of datapoints) (\<lambda>ds.
                     ebind (latest_point ds) (\<lambda>p.
                     ebind (dict_get p ''Average'' PNone) (\<lambda>val.
                       if val = PNone then Inr r
                       else test_conditions False (fstring_descr metric) ''cloudwatch''
                              (Some metric) val conditions r)))))
       ms res"

text \<open>Case A, disk: every list entry of the condition's partition is tested.\<close>

fun disk_entries :: "condition \<Rightarrow> pyval list \<Rightarrow> final_result \<Rightarrow> exn + final_result" where
  "disk_entries c [] res = Inr res"
| "disk_entries c (d # ds) res =
     ebind (dict_get d ''partition'' PNone) (\<lambda>p.
       if py_eq p (case c_partition c of None \<Rightarrow> PNone | Some s \<Rightarrow> PStr s) then
         ebind (dict_get d ''percent'' PNone) (\<lambda>val.
         ebind (compare val (c_compare_logic c) (c_value c)) (\<lambda>hit.
           disk_entries c ds
             (if hit then
                record_match ''disk'' (c_partition c)
                  (Descr (case c_description c of None \<Rightarrow> '''' | Some d \<Rightarrow> d)) val res
              else res)))
       else disk_entries c ds res)"

definition check_list_conf ::
  "string \<Rightarrow> pyval \<Rightarrow> condition list \<Rightarrow> final_result \<Rightarrow> exn + final_result" where
  "check_list_conf service data cs res =
     (if service = ''disk'' then
        efold (\<lambda>c r. ebind (iter_of data) (\<lambda>ds. disk_entries c ds r)) cs res
      else if service = ''ram'' then
        test_conditions True empty_descr ''ram'' (Some ''percentage'')
          (case data of PDict kvs \<Rightarrow> (case map_of kvs ''percentage'' of None \<Rightarrow> PNone | Some v \<Rightarrow> v)
           | _ \<Rightarrow> data)
          cs res
      else Inr res)"

text \<open>Case B, dict-shaped services: \<open>data.get(metric)\<close> is read inside the condition loop.\<close>

definition check_dict_conf ::
  "string \<Rightarrow> pyval \<Rightarrow> (string \<times> condition list) list \<Rightarrow> final_result \<Rightarrow> exn + final_result" where
  "check_dict_conf service data ms res =
     efold (\<lambda>(metric, conditions) r.
              if conditions = [] then Inr r
              else ebind (dict_get data metric PNone) (\<lambda>val.
                     test_conditions True (fstring_descr metric) service (Some metric) val
                       conditions r))
       ms res"

definition check_service ::
  "service_dict \<Rightarrow> string \<times> conf \<Rightarrow> final_result \<Rightarrow> exn + final_result" where
  "check_service sd sc res =
     (case sc of (service, conf) \<Rightarrow>
        if service = ''default'' then Inr res
        else (case map_of sd service of
                None \<Rightarrow> Inr res
              | Some data \<Rightarrow>
                  (case conf of
                     ConfDict ms \<Rightarrow>
                       if service = ''cloudwatch'' then check_cloudwatch data ms res
                       else check_dict_conf service data ms res
                   | ConfList cs \<Rightarrow> check_list_conf service data cs res)))"

definition check_snapshot :: "fail_state \<Rightarrow> service_dict list \<Rightarrow> final_result \<Rightarrow> exn + final_result" where
  "check_snapshot fs snapshot res =
     ebind (check_default fs snapshot res) (\<lambda>r.
       efold (\<lambda>sd. efold (check_service sd) fs) snapshot r)"

definition server_status_check :: "fail_state \<Rightarrow> service_dict list list \<Rightarrow> exn + final_result" where
  "server_status_check fs tasks = efold (check_snapshot fs) tasks Map.empty"

text \<open>
  For one (service, metric) pair: the conditions that match a value, in configuration
  order.
\<close>

definition matching :: "pyval \<Rightarrow> condition list \<Rightarrow> condition list" where
  "matching val cs = filter (\<lambda>c. compare val (c_compare_logic c) (c_value c) = Inr True) cs"

text \<open>What a match of condition \<open>c\<close> on \<open>val\<close> records.\<close>

definition finding_of :: "(condition \<Rightarrow> descr) \<Rightarrow> condition \<Rightarrow> pyval \<Rightarrow> finding" where
  "finding_of dflt c val =
     \<lparr>f_description = (case c_description c of None \<Rightarrow> dflt c | Some d \<Rightarrow> Descr d),
      f_result = True, f_detail = val\<rparr>"

text \<open>A rule document with two thresholds on one metric, and a snapshot above both.\<close>

definition ex_conditions :: "condition list" where
  "ex_conditions =
     [\<lparr>c_compare_logic = ''gte'', c_value = PNum 10, c_description = Some ''warning'',
        c_partition = None\<rparr>,
      \<lparr>c_compare_logic = ''gte'', c_value = PNum 100, c_description = Some ''critical'',
        c_partition = None\<rparr>]"

definition ex_fail_state :: fail_state where
  "ex_fail_state = [(''mongodb'', ConfDict [(''connections'', ex_conditions)])]"

definition ex_tasks :: "service_dict list list" where
  "ex_tasks = [[[(''mongodb'', PDict [(''connections'', PNum 150)])]]]"

section \<open>SafetyGate (instance\_scaling.scale\_using\_recommendation)\<close>

text \<open>
  A document of the \<open>monitoring_data\<close> index, with the fields the gate queries or reads
  (\<open>None\<close>: the document has no such field); times are seconds.
\<close>

record mon_doc =
  md_InstanceId :: "string option"
  md_name :: "string option"
  md_Tags :: "string \<rightharpoonup> string"
  md_State :: "string option"
  md_Region :: "string option"
  md_Program :: "string option"
  md_InstanceType :: "string option"
  md_timestamp :: int

text \<open>
  \<open>current_state\<close>, the state of the requested instance as \<open>cluster_status\<close> returned it
  (it has \<open>Tags\<close>: the request was answered before otherwise), and one entry of
  \<open>inventory_config["status_checks"]["environments"]\<close>: \<open>project\<close> and \<open>environment\<close> are
  read with \<open>.get\<close>, \<open>region\<close> and \<open>programs\<close> by subscript (\<open>None\<close>: the key is missing), and
  a program maps to its \<open>scale_as_group_tag\<close>, if it has one.
\<close>

record current_state =
  cs_Tags :: "string \<rightharpoonup> string"
  cs_Region :: "string option"
  cs_InstanceType :: "string option"




text \<open>\<open>collapse\<close> on a field: of the documents with one value of the field, the first is kept.\<close>

fun collapse_on :: "('a \<Rightarrow> 'k) \<Rightarrow> 'k list \<Rightarrow> 'a list \<Rightarrow> 'a list" where
  "collapse_on key seen [] = []"
| "collapse_on key seen (x # xs) =
     (if key x \<in> set seen then collapse_on key seen xs
      else x # collapse_on key (key x # seen) xs)"









definition shares_group :: "current_state \<Rightarrow> string \<Rightarrow> mon_doc \<Rightarrow> bool" where
  "shares_group cur tag d \<longleftrightarrow>
     cs_Tags cur tag \<noteq> None \<and> md_Tags d tag = cs_Tags cur tag \<and>
     md_Tags d ''Project'' = cs_Tags cur ''Project'' \<and>
     md_Tags d ''Environment'' = cs_Tags cur ''Environment'' \<and>
     md_State d = Some ''running'' \<and>
     md_Region d = cs_Region cur \<and>
     md_Program d = cs_Tags cur ''Program'' \<and>
     md_InstanceType d = cs_InstanceType cur"


definition peers_under :: "current_state \<Rightarrow> mon_doc list \<Rightarrow> string \<Rightarrow> mon_doc list" where
  "peers_under cur docs tag =
     take 1000
       (collapse_on (\<lambda>d. md_Tags d ''hostName'') []
          (sort_key (\<lambda>d. - md_timestamp d) (filter (shares_group cur tag) docs)))"










section \<open>Double-precision arithmetic\<close>

text \<open>
  A Python \<open>float\<close> is a double, hence a rational number.  What the machine computes on
  doubles (each IEEE operation rounds its exact result, \<open>math.exp\<close> is the C library's) is
  not fixed here: the operations are a parameter, and what is proved with them holds
  for the machine's arithmetic as for any other.  An \<open>int\<close> converts to the same number
  (integers below \<open>2^53\<close>), comparisons and \<open>math.ceil\<close> are exact.
\<close>

record arith =
  f_add :: "rat \<Rightarrow> rat \<Rightarrow> rat"
  f_sub :: "rat \<Rightarrow> rat \<Rightarrow> rat"
  f_mul :: "rat \<Rightarrow> rat \<Rightarrow> rat"
  f_div :: "rat \<Rightarrow> rat \<Rightarrow> rat"
  f_exp :: "rat \<Rightarrow> rat"
  f_round3 :: "rat \<Rightarrow> rat"

text \<open>\<open>round(x, 3)\<close> without representation error: to the nearest thousandth, ties to even.\<close>

definition round3 :: "rat \<Rightarrow> rat" where
  "round3 x =
     (let y = x * 1000; f = \<lfloor>y\<rfloor>; r = y - of_int f
      in of_int (if r < 1 / 2 then f else if 1 / 2 < r then f + 1
                 else if even f then f else f + 1) / 1000)"

text \<open>
  The arithmetic of the examples: no rounding, and \<open>exp\<close> tabulated at \<open>-1\<close> with the double
  that \<open>math.exp(-1.0)\<close> returns.  On the examples of this theory every exact result is
  itself a double, so the machine computes the same numbers.
\<close>

definition ex_arith :: arith where
  "ex_arith =
     \<lparr>f_add = (\<lambda>a b. a + b), f_sub = (\<lambda>a b. a - b), f_mul = (\<lambda>a b. a * b),
      f_div = (\<lambda>a b. a / b),
      f_exp = (\<lambda>x. if x = - 1 then 828390857088487 / 2251799813685248 else 1),
      f_round3 = round3\<rparr>"

section \<open>RightsizingEngine (instance\_usage\_measurement.py)\<close>

record specs =
  vcpus :: int
  memory_mib :: int
  architectures :: "string list"

record thresholds =
  cpu_upper :: rat
  cpu_lower :: rat
  swap_upper :: rat
  swap_lower :: rat
  net_upper :: rat
  net_lower :: rat

definition default_thresholds :: thresholds where
  "default_thresholds =
     \<lparr>cpu_upper = 75, cpu_lower = 25, swap_upper = 75, swap_lower = 25,
      net_upper = 75, net_lower = 25\<rparr>"

text \<open>
  \<open>_to_mib\<close>: falsy values give 0; a number with a fractional part, or below 8192000, is
  taken as MiB; any other number as bytes.  A truthy value that is not a number fails at
  the comparison.
\<close>

definition to_mib :: "pyval \<Rightarrow> exn + rat" where
  "to_mib val =
     (if \<not> truthy val then Inr 0
      else case as_num val of
             None \<Rightarrow> Inl (TypeError ''<'')
           | Some x \<Rightarrow>
               if of_int \<lfloor>x\<rfloor> \<noteq> x then Inr x
               else if x < 8192000 then Inr x
               else Inr (x / (1024 * 1024)))"

text \<open>
  \<open>get_dynamic_itil_swap\<close>, in the arithmetic \<open>F\<close>.  Its only caller passes the defaults
  \<open>max_factor = 2.0\<close>, \<open>min_factor = 1.0\<close>, \<open>decay_scale_mib = 16384\<close>.
\<close>

definition get_dynamic_itil_swap :: "arith \<Rightarrow> int \<Rightarrow> rat \<Rightarrow> rat \<Rightarrow> int \<Rightarrow> int" where
  "get_dynamic_itil_swap F mem_mib max_factor min_factor decay_scale_mib =
     (let interp = f_exp F (f_div F (of_int (- mem_mib)) (of_int decay_scale_mib));
          factor = f_add F min_factor (f_mul F (f_sub F max_factor min_factor) interp)
      in \<lceil>f_mul F (of_int mem_mib) factor\<rceil>)"

fun find_ram_blob :: "pyval list \<Rightarrow> pyval option" where
  "find_ram_blob [] = None"
| "find_ram_blob (blob # blobs) =
     (case blob of
        PDict kvs \<Rightarrow> (case map_of kvs ''ram'' of Some r \<Rightarrow> Some r | None \<Rightarrow> find_ram_blob blobs)
      | _ \<Rightarrow> find_ram_blob blobs)"

definition ram_triple :: "pyval \<Rightarrow> exn + (rat \<times> rat \<times> pyval)" where
  "ram_triple r =
     ebind (dict_get r ''total'' PNone) (\<lambda>t.
     ebind (to_mib t) (\<lambda>total.
     ebind (dict_get r ''used'' PNone) (\<lambda>u.
     ebind (to_mib u) (\<lambda>used.
     ebind (dict_get r ''percentage'' PNone) (\<lambda>p.
       Inr (total, used,
            if truthy p then p
            else PNum (if total \<noteq> 0 then used / total * 100 else 0)))))))"

fun extract_ram_from_tasks :: "pyval list \<Rightarrow> exn + (rat \<times> rat \<times> pyval)" where
  "extract_ram_from_tasks [] = Inr (0, 0, PNum 0)"
| "extract_ram_from_tasks (task # tasks) =
     (case task of
        PList blobs \<Rightarrow>
          (case find_ram_blob blobs of
             Some r \<Rightarrow> ram_triple r
           | None \<Rightarrow> extract_ram_from_tasks tasks)
      | _ \<Rightarrow> extract_ram_from_tasks tasks)"

text \<open>\<open>statistics.mean\<close>: the exact mean of a non-empty list of numbers.\<close>

definition py_mean :: "pyval list \<Rightarrow> exn + rat" where
  "py_mean vals =
     (if vals = [] then Inl (OtherError ''StatisticsError'')
      else ebind (emap (\<lambda>v. case as_num v of None \<Rightarrow> Inl (TypeError ''mean'') | Some x \<Rightarrow> Inr x) vals)
             (\<lambda>xs. Inr (sum_list xs / of_nat (length xs))))"

text \<open>\<open>_mean_cpu_pct\<close>: the list comprehension, then the mean and its rescaling.\<close>

fun cpu_values :: "pyval list \<Rightarrow> exn + pyval list" where
  "cpu_values [] = Inr []"
| "cpu_values (p # ps) =
     (if truthy p then
        ebind (dict_get p ''Value'' PNone) (\<lambda>v.
        ebind (cpu_values ps) (\<lambda>vs. Inr (if v \<noteq> PNone then v # vs else vs)))
      else cpu_values ps)"

definition mean_cpu_pct :: "pyval \<Rightarrow> exn + rat" where
  "mean_cpu_pct points =
     ebind (iter_of points) (\<lambda>ps.
     ebind (cpu_values ps) (\<lambda>vals.
       if vals = [] then Inr 0
       else ebind (py_mean vals) (\<lambda>m. Inr (if m \<le> 1 then m * 100 else m))))"

definition cmp_size :: "(string \<Rightarrow> exn + specs) \<Rightarrow> string \<Rightarrow> string \<Rightarrow> exn + int" where
  "cmp_size get_instance_specs a b =
     ebind (get_instance_specs a) (\<lambda>sa.
     ebind (get_instance_specs b) (\<lambda>sb.
       Inr (if vcpus sa \<noteq> vcpus sb then
              (if vcpus sa > vcpus sb then 1 else 0) - (if vcpus sa < vcpus sb then 1 else 0)
            else (if memory_mib sa > memory_mib sb then 1 else 0) -
                 (if memory_mib sa < memory_mib sb then 1 else 0))))"

text \<open>The swap scan over \<open>host["tasks"]\<close>; the state is \<open>(used, configured, pct)\<close>.\<close>

fun swap_disk_scan :: "pyval list \<Rightarrow> exn + pyval option" where
  "swap_disk_scan [] = Inr None"
| "swap_disk_scan (d # ds) =
     ebind (dict_get d ''partition'' PNone) (\<lambda>p.
       if py_eq p (PStr ''swap'') then Inr (Some d) else swap_disk_scan ds)"

fun swap_scan :: "pyval list \<Rightarrow> rat \<times> rat \<times> rat \<Rightarrow> exn + (rat \<times> rat \<times> rat)" where
  "swap_scan [] st = Inr st"
| "swap_scan (t # ts) (used, configured, pct) =
     (case t of
        PList blobs \<Rightarrow>
          if length blobs < 2 then swap_scan ts (used, configured, pct)
          else
            ebind (dict_get (blobs ! 1) ''disk'' (PList [])) (\<lambda>dk.
            ebind (iter_of (if truthy dk then dk else PList [])) (\<lambda>ds.
            ebind (swap_disk_scan ds) (\<lambda>found.
              case found of
                None \<Rightarrow>
                  if configured \<noteq> 0 then Inr (used, configured, pct)
                  else swap_scan ts (used, configured, pct)
              | Some d \<Rightarrow>
                  ebind (dict_get d ''used'' (PNum 0)) (\<lambda>u.
                  ebind (to_mib u) (\<lambda>used'.
                  ebind (dict_get d ''total'' (PNum 0)) (\<lambda>tt.
                  ebind (to_mib tt) (\<lambda>configured'.
                    if configured' \<noteq> 0 then
                      Inr (used', configured', used' / configured' * 100)
                    else swap_scan ts (used', configured', pct))))))))
      | _ \<Rightarrow> swap_scan ts (used, configured, pct))"

text \<open>
  \<open>re.match(r"^(.*?)\.", current).group(1)\<close>: the text before the first dot; no match
  (no dot, or a newline before it) makes \<open>.group\<close> fail on \<open>None\<close>.
\<close>

definition family_of :: "string \<Rightarrow> exn + string" where
  "family_of current =
     (let pre = takeWhile (\<lambda>c. c \<noteq> CHR ''.'') current
      in if length pre = length current \<or> CHR 0x0A \<in> set pre
         then Inl (AttributeError ''group'')
         else Inr pre)"

text \<open>
  \<open>list_instance_types\<close> filters the provider's listing by the family prefix; the
  candidates share an architecture with the current type and are sorted (stably) by
  \<open>(vcpus, memory_mib)\<close>.  A candidate is kept with its specs (\<open>get_instance_specs\<close> is
  cached, so later lookups return the same).
\<close>

definition list_instance_types :: "exn + string list \<Rightarrow> string \<Rightarrow> exn + string list" where
  "list_instance_types listing family_prefix =
     ebind listing (\<lambda>all_types.
       Inr (filter (\<lambda>it. take (length (family_prefix @ ''.'')) it = family_prefix @ ''.'') all_types))"

definition candidates ::
  "(string \<Rightarrow> exn + specs) \<Rightarrow> exn + string list \<Rightarrow> string \<Rightarrow> specs \<Rightarrow> exn + (string \<times> specs) list" where
  "candidates get_instance_specs listing family sp =
     ebind (list_instance_types listing family) (\<lambda>its.
     ebind (emap (\<lambda>it. ebind (get_instance_specs it) (\<lambda>s. Inr (it, s))) its) (\<lambda>described.
       Inr (sort_key (\<lambda>(it, s). (vcpus s, memory_mib s))
              (filter (\<lambda>(it, s). \<exists>a \<in> set (architectures sp). a \<in> set (architectures s))
                 described))))"

fun first_fit :: "(string \<times> specs) list \<Rightarrow> rat \<Rightarrow> rat \<Rightarrow> string option" where
  "first_fit [] v_need m_need = None"
| "first_fit ((it, s) # cands) v_need m_need =
     (if of_int (vcpus s) \<ge> v_need \<and> of_int (memory_mib s) \<ge> m_need then Some it
      else first_fit cands v_need m_need)"

definition pick_smallest :: "(string \<times> specs) list \<Rightarrow> rat \<Rightarrow> rat \<Rightarrow> exn + string" where
  "pick_smallest cands v_need m_need =
     (case first_fit cands v_need m_need of
        Some it \<Rightarrow> Inr it
      | None \<Rightarrow> if cands = [] then Inl (IndexError ''list index out of range'')
                else Inr (fst (last cands)))"

text \<open>
  The local variables of \<open>recommend_instance\<close> when it reaches the decision (line 242 of
  the source).
\<close>

record sizing =
  s_current :: string
  s_specs :: specs
  s_cpu_pct :: rat
  s_req_vcpus :: int
  s_mem_total_mib :: rat
  s_mem_used_mib :: rat
  s_mem_pct :: pyval
  s_used_swap_mib :: rat
  s_configured_swap_mib :: rat
  s_swap_pct :: rat
  s_rec_swap_mib :: int
  s_effective_swap_mib :: rat
  s_net_pct :: rat
  s_cands :: "(string \<times> specs) list"
  s_over :: bool
  s_under :: bool
  s_req_mem_up :: rat
  s_req_mem_min :: rat

definition effective_swap :: "int \<Rightarrow> rat \<Rightarrow> rat" where
  "effective_swap rec_swap_mib configured_swap_mib =
     (if configured_swap_mib \<noteq> 0 then min (of_int rec_swap_mib) configured_swap_mib
      else of_int rec_swap_mib)"

definition required_ram_up :: "arith \<Rightarrow> thresholds \<Rightarrow> rat \<Rightarrow> rat \<Rightarrow> int \<Rightarrow> exn + rat" where
  "required_ram_up F th used_swap_mib configured_swap_mib total_ram_mib =
     (if configured_swap_mib \<noteq> 0 then
        (if swap_upper th = 0 then Inl ZeroDivisionError
         else Inr (max (f_sub F (of_int \<lceil>f_div F (f_mul F used_swap_mib 100) (swap_upper th)\<rceil>)
                          configured_swap_mib)
                       (of_int total_ram_mib)))
      else Inr (of_int total_ram_mib))"

definition required_ram_down :: "arith \<Rightarrow> thresholds \<Rightarrow> rat \<Rightarrow> rat \<Rightarrow> int \<Rightarrow> exn + rat" where
  "required_ram_down F th used_swap_mib configured_swap_mib total_ram_mib =
     (if configured_swap_mib \<noteq> 0 then
        (if swap_lower th = 0 then Inl ZeroDivisionError
         else Inr (f_sub F (of_int \<lceil>f_div F (f_mul F used_swap_mib 100) (swap_lower th)\<rceil>)
                     configured_swap_mib))
      else Inr (of_int total_ram_mib))"

definition host_series :: "pyval \<Rightarrow> string \<Rightarrow> exn + pyval" where
  "host_series host label =
     ebind (dict_get host ''cloudwatch'' (PDict [])) (\<lambda>cw. dict_get cw label (PList []))"

definition series_values :: "pyval \<Rightarrow> exn + pyval list" where
  "series_values series = ebind (iter_of series) (emap (\<lambda>m. subscript m ''Value''))"

definition recommend_sizing ::
  "arith \<Rightarrow> (string \<Rightarrow> exn + specs) \<Rightarrow> exn + string list \<Rightarrow> pyval \<Rightarrow> thresholds \<Rightarrow>
   exn + sizing" where
  "recommend_sizing F get_instance_specs listing host th =
     ebind (subscript host ''InstanceType'') (\<lambda>cur.
     ebind (case cur of PStr c \<Rightarrow> Inr c | _ \<Rightarrow> Inl (TypeError ''InstanceType'')) (\<lambda>current.
     ebind (get_instance_specs current) (\<lambda>sp.
     ebind (host_series host ''cpu'') (\<lambda>cpu_points.
     ebind (series_values cpu_points) (\<lambda>cpu_vals.
     ebind (mean_cpu_pct cpu_points) (\<lambda>cpu_pct.
     ebind (dict_get host ''tasks'' (PList [])) (\<lambda>tasks_v.
     ebind (iter_of tasks_v) (\<lambda>tasks.
     ebind (extract_ram_from_tasks tasks) (\<lambda>(mem_total_mib, mem_used_mib, mem_pct).
     ebind (swap_scan tasks (0, 0, 0)) (\<lambda>(used_swap_mib, configured_swap_mib, swap_pct).
     ebind (host_series host ''network_total_pct'') (\<lambda>net_points.
     ebind (series_values net_points) (\<lambda>net_vals.
     ebind (if net_vals = [] then Inr 0 else py_mean net_vals) (\<lambda>net_pct.
     ebind (family_of current) (\<lambda>family.
     ebind (candidates get_instance_specs listing family sp) (\<lambda>cands.
     ebind (required_ram_up F th used_swap_mib configured_swap_mib (memory_mib sp)) (\<lambda>ram_up.
     ebind (required_ram_down F th used_swap_mib configured_swap_mib (memory_mib sp)) (\<lambda>ram_down.
       let rec_swap_mib = get_dynamic_itil_swap F (memory_mib sp) 2 1 (16 * 1024);
           effective_swap_mib = effective_swap rec_swap_mib configured_swap_mib
       in Inr \<lparr>s_current = current, s_specs = sp, s_cpu_pct = cpu_pct,
                s_req_vcpus = max 1 \<lceil>of_int (vcpus sp) * cpu_pct / 100 * 2\<rceil>,
                s_mem_total_mib = mem_total_mib, s_mem_used_mib = mem_used_mib,
                s_mem_pct = mem_pct,
                s_used_swap_mib = used_swap_mib, s_configured_swap_mib = configured_swap_mib,
                s_swap_pct = swap_pct, s_rec_swap_mib = rec_swap_mib,
                s_effective_swap_mib = effective_swap_mib, s_net_pct = net_pct,
                s_cands = cands,
                s_over = (cpu_pct > cpu_upper th \<or> swap_pct > swap_upper th \<or>
                          net_pct > net_upper th),
                s_under = (cpu_pct < cpu_lower th \<and> swap_pct < swap_lower th \<and>
                           net_pct < net_lower th),
                s_req_mem_up = f_add F ram_up effective_swap_mib,
                s_req_mem_min = f_add F (of_int \<lceil>mem_used_mib\<rceil>) effective_swap_mib\<rparr>)))))))))))))))))"

text \<open>
  The returned dict.  Of \<open>Reason\<close> only the action that selects its first line is kept
  (the number formatting is not modelled), and the failure of formatting a non-numeric
  \<open>mem_pct\<close> with \<open>.1f\<close>.
\<close>

record recommendation =
  r_NewInstanceType :: string
  r_action :: string
  r_changed :: bool
  r_MemoryUsedMiB :: rat
  r_MemoryTotalMiB :: rat
  r_MemoryPct :: pyval

definition recommend_instance ::
  "arith \<Rightarrow> (string \<Rightarrow> exn + specs) \<Rightarrow> exn + string list \<Rightarrow> pyval \<Rightarrow> thresholds \<Rightarrow>
   exn + recommendation" where
  "recommend_instance F get_instance_specs listing host th =
     ebind (recommend_sizing F get_instance_specs listing host th) (\<lambda>s.
     ebind (if s_over s then
              pick_smallest (s_cands s) (of_int (s_req_vcpus s)) (s_req_mem_up s)
            else if s_under s then
              pick_smallest (s_cands s) (of_int (s_req_vcpus s)) (s_req_mem_min s)
            else Inr (s_current s)) (\<lambda>target.
     ebind (cmp_size get_instance_specs target (s_current s)) (\<lambda>cmp.
     ebind (case as_num (s_mem_pct s) of
              None \<Rightarrow> Inl (TypeError ''format'')
            | Some x \<Rightarrow> Inr ()) (\<lambda>u.
       Inr \<lparr>r_NewInstanceType = target,
            r_action = (if cmp = 1 then ''up'' else if cmp = - 1 then ''down'' else ''none''),
            r_changed = (cmp \<noteq> 0),
            r_MemoryUsedMiB = s_mem_used_mib s,
            r_MemoryTotalMiB = s_mem_total_mib s,
            r_MemoryPct = s_mem_pct s\<rparr>))))"

text \<open>
  A provider with three sizes of one family, and a host of the middle size at 50 percent
  CPU and network, with and without a swap partition among its disks.
\<close>

definition ex_get_instance_specs :: "string \<Rightarrow> exn + specs" where
  "ex_get_instance_specs it =
     (if it = ''m5.large'' then Inr \<lparr>vcpus = 2, memory_mib = 8192, architectures = [''x86_64'']\<rparr>
      else if it = ''m5.xlarge'' then Inr \<lparr>vcpus = 4, memory_mib = 16384, architectures = [''x86_64'']\<rparr>
      else if it = ''m5.2xlarge'' then Inr \<lparr>vcpus = 8, memory_mib = 32768, architectures = [''x86_64'']\<rparr>
      else Inl (ClientError (Some ''InvalidInstanceType'') ''unknown instance type''))"

definition ex_listing :: "exn + string list" where
  "ex_listing = Inr [''m5.2xlarge'', ''c5.large'', ''m5.large'', ''m5.xlarge'']"

definition ex_host :: "pyval \<Rightarrow> pyval" where
  "ex_host disk =
     PDict [(''InstanceType'', PStr ''m5.xlarge''),
            (''cloudwatch'', PDict [(''cpu'', PList [PDict [(''Value'', PNum 40)],
                                                      PDict [(''Value'', PNum 60)]]),
                                    (''network_total_pct'', PList [PDict [(''Value'', PNum 50)]])]),
            (''tasks'', PList [PList [PDict [(''ram'', PDict [(''total'', PNum 16384),
                                                               (''used'', PNum 8000)])],
                                      PDict [(''disk'', disk)]]])]"

definition ex_disk_noswap :: pyval where
  "ex_disk_noswap = PList [PDict [(''partition'', PStr ''/''), (''total'', PNum 100000), (''used'', PNum 5000)]]"

definition ex_disk_swap :: pyval where
  "ex_disk_swap = PList [PDict [(''partition'', PStr ''/''), (''total'', PNum 100000), (''used'', PNum 5000)],
                         PDict [(''partition'', PStr ''swap''), (''total'', PNum 4096), (''used'', PNum 2048)]]"

text \<open>What \<open>recommend_instance\<close> has computed for these two hosts when it decides.\<close>

definition ex_sizing_noswap :: sizing where
  "ex_sizing_noswap =
     \<lparr>s_current = ''m5.xlarge'',
      s_specs = \<lparr>vcpus = 4, memory_mib = 16384, architectures = [''x86_64'']\<rparr>,
      s_cpu_pct = 50, s_req_vcpus = 4, s_mem_total_mib = 16384,
      s_mem_used_mib = 8000, s_mem_pct = PNum (3125 / 64),
      s_used_swap_mib = 0, s_configured_swap_mib = 0, s_swap_pct = 0,
      s_rec_swap_mib = 22412, s_effective_swap_mib = 22412, s_net_pct = 50,
      s_cands =
        [(''m5.large'', \<lparr>vcpus = 2, memory_mib = 8192, architectures = [''x86_64'']\<rparr>),
         (''m5.xlarge'', \<lparr>vcpus = 4, memory_mib = 16384, architectures = [''x86_64'']\<rparr>),
         (''m5.2xlarge'', \<lparr>vcpus = 8, memory_mib = 32768, architectures = [''x86_64'']\<rparr>)],
      s_over = False, s_under = False,
      s_req_mem_up = 38796, s_req_mem_min = 30412\<rparr>"

definition ex_sizing_swap :: sizing where
  "ex_sizing_swap =
     \<lparr>s_current = ''m5.xlarge'',
      s_specs = \<lparr>vcpus = 4, memory_mib = 16384, architectures = [''x86_64'']\<rparr>,
      s_cpu_pct = 50, s_req_vcpus = 4, s_mem_total_mib = 16384,
      s_mem_used_mib = 8000, s_mem_pct = PNum (3125 / 64),
      s_used_swap_mib = 2048, s_configured_swap_mib = 4096, s_swap_pct = 50,
      s_rec_swap_mib = 22412, s_effective_swap_mib = 4096, s_net_pct = 50,
      s_cands =
        [(''m5.large'', \<lparr>vcpus = 2, memory_mib = 8192, architectures = [''x86_64'']\<rparr>),
         (''m5.xlarge'', \<lparr>vcpus = 4, memory_mib = 16384, architectures = [''x86_64'']\<rparr>),
         (''m5.2xlarge'', \<lparr>vcpus = 8, memory_mib = 32768, architectures = [''x86_64'']\<rparr>)],
      s_over = False, s_under = False,
      s_req_mem_up = 20480, s_req_mem_min = 12096\<rparr>"

text \<open>
  The specification's words for the CPU percentage: 0 for no values, otherwise the mean
  \<open>m\<close>, rescaled by 100 when \<open>m \<le> 1\<close>.  A datapoint is a dict whose \<open>Value\<close> is absent,
  \<open>None\<close> or a number; \<open>point_value\<close> is that number.
\<close>

definition cpu_pct_spec :: "rat list \<Rightarrow> rat" where
  "cpu_pct_spec vals =
     (if vals = [] then 0
      else let m = sum_list vals / of_nat (length vals)
           in if m \<le> 1 then 100 * m else m)"

definition point_value :: "pyval \<Rightarrow> rat option" where
  "point_value p =
     (case p of
        PDict kvs \<Rightarrow> (case map_of kvs ''Value'' of None \<Rightarrow> None | Some v \<Rightarrow> as_num v)
      | _ \<Rightarrow> None)"

definition wf_point :: "pyval \<Rightarrow> bool" where
  "wf_point p =
     (case p of
        PDict kvs \<Rightarrow>
          (case map_of kvs ''Value'' of None \<Rightarrow> True | Some v \<Rightarrow> v = PNone \<or> as_num v \<noteq> None)
      | _ \<Rightarrow> False)"

definition ex_cpu_points :: "pyval list" where
  "ex_cpu_points = [PDict [(''Value'', PNum 40)], PDict [(''Value'', PNum 60)]]"

section \<open>MetricFetcher, MetricMerger and DerivationEngine (monitoring\_status.get\_instance\_metrics)\<close>

text \<open>
  A timestamp is a \<open>datetime\<close>: seconds since the epoch as a rational (the resolution is a
  microsecond, and \<open>datetime\<close> arithmetic is exact); a value is a double.  A point is the
  dict with \<open>Timestamp\<close>, \<open>Value\<close>, \<open>Unit\<close> and, for volume metrics, \<open>volume_id\<close> and
  \<open>partition\<close>.
\<close>

record point =
  p_Timestamp :: rat
  p_Value :: rat
  p_Unit :: string
  p_volume_id :: "string option"
  p_partition :: "string option"

record block_device =
  bd_DeviceName :: string
  bd_VolumeId :: string

text \<open>One \<open>get_metric_statistics\<close> request, and one queued bulk-index action.\<close>

record cw_request =
  q_Namespace :: string
  q_MetricName :: string
  q_Dimensions :: "(string \<times> string) list"
  q_StartTime :: rat
  q_EndTime :: rat
  q_Period :: int
  q_Statistic :: string
  q_Unit :: string

record index_action =
  ia_instance_id :: string
  ia_metric :: string
  ia_point :: point

datatype vol_metric =
    VolumeReadBytes | VolumeWriteBytes | VolumeReadOps | VolumeWriteOps | VolumeIdleTime

fun vol_metric_name :: "vol_metric \<Rightarrow> string" where
  "vol_metric_name VolumeReadBytes = ''VolumeReadBytes''"
| "vol_metric_name VolumeWriteBytes = ''VolumeWriteBytes''"
| "vol_metric_name VolumeReadOps = ''VolumeReadOps''"
| "vol_metric_name VolumeWriteOps = ''VolumeWriteOps''"
| "vol_metric_name VolumeIdleTime = ''VolumeIdleTime''"

text \<open>\<open>"Seconds" if "IdleTime" in cw_metric else "Count" if "Ops" in cw_metric else "Bytes"\<close>\<close>

fun vol_metric_unit :: "vol_metric \<Rightarrow> string" where
  "vol_metric_unit VolumeIdleTime = ''Seconds''"
| "vol_metric_unit VolumeReadOps = ''Count''"
| "vol_metric_unit VolumeWriteOps = ''Count''"
| "vol_metric_unit _ = ''Bytes''"

record vol_entry =
  ve_device :: string
  ve_volume_id :: string
  ve_read_bytes :: "point list"
  ve_write_bytes :: "point list"
  ve_read_ops :: "point list"
  ve_write_ops :: "point list"
  ve_idle_time :: "point list"

text \<open>\<open>entry[key_map[cw_metric]] = combined\<close>\<close>

fun set_series :: "vol_metric \<Rightarrow> point list \<Rightarrow> vol_entry \<Rightarrow> vol_entry" where
  "set_series VolumeReadBytes ps e = e\<lparr>ve_read_bytes := ps\<rparr>"
| "set_series VolumeWriteBytes ps e = e\<lparr>ve_write_bytes := ps\<rparr>"
| "set_series VolumeReadOps ps e = e\<lparr>ve_read_ops := ps\<rparr>"
| "set_series VolumeWriteOps ps e = e\<lparr>ve_write_ops := ps\<rparr>"
| "set_series VolumeIdleTime ps e = e\<lparr>ve_idle_time := ps\<rparr>"

text \<open>
  The collaborators of one call: the cloud control API's \<open>describe_instances\<close> (the
  response as Reservations, Instances, BlockDeviceMappings), the result of
  \<open>es_bulk_load\<close> for the labels, the cloud metrics API (datapoints as timestamp and
  statistic), whether \<open>es_bulk_index\<close> raises, and the advertised bandwidth in Gbps
  (\<open>INSTANCE_BW_CACHE\<close> or \<open>lookup_bandwidth_gbps\<close>).
\<close>

record metrics_env =
  describe_instances :: "string \<Rightarrow> exn + block_device list list list"
  es_bulk_load :: "string list \<Rightarrow> exn + (string \<rightharpoonup> point list)"
  get_metric_statistics :: "cw_request \<Rightarrow> exn + (rat \<times> rat) list"
  es_bulk_index_raises :: "exn option"
  bandwidth_gbps :: "string \<Rightarrow> exn + rat"

text \<open>
  The state of one call: \<open>results\<close>, \<open>all_actions\<close> and \<open>vol_data\<close> of the source, and two
  logs of what went out: the metric-fetch calls (with the label they were made for) and
  the actions handed to \<open>es_bulk_index\<close>.
\<close>

record mstate =
  ms_results :: "string \<rightharpoonup> point list"
  ms_all_actions :: "index_action list"
  ms_vol_data :: "(string \<times> vol_entry) list"
  ms_cw_calls :: "(string \<times> cw_request) list"
  ms_indexed :: "index_action list"

definition init_mstate :: mstate where
  "init_mstate = \<lparr>ms_results = Map.empty, ms_all_actions = [], ms_vol_data = [],
                   ms_cw_calls = [], ms_indexed = []\<rparr>"

type_synonym mstep = "mstate \<Rightarrow> exn option \<times> mstate"

fun sfold :: "('a \<Rightarrow> mstep) \<Rightarrow> 'a list \<Rightarrow> mstep" where
  "sfold f [] st = (None, st)"
| "sfold f (x # xs) st =
     (case f x st of (None, st') \<Rightarrow> sfold f xs st' | (Some e, st') \<Rightarrow> (Some e, st'))"

definition mseq :: "mstep \<Rightarrow> mstep \<Rightarrow> mstep" where
  "mseq f g st = (case f st of (None, st') \<Rightarrow> g st' | (Some e, st') \<Rightarrow> (Some e, st'))"

text \<open>\<open>fetch_metric\<close>: one call of the cloud metrics API, its datapoints sorted by timestamp.\<close>

definition fetch_metric :: "metrics_env \<Rightarrow> string \<Rightarrow> cw_request \<Rightarrow> mstate \<Rightarrow> (exn + point list) \<times> mstate" where
  "fetch_metric E label q st =
     (let st' = st\<lparr>ms_cw_calls := ms_cw_calls st @ [(label, q)]\<rparr>
      in case get_metric_statistics E q of
           Inl e \<Rightarrow> (Inl e, st')
         | Inr dps \<Rightarrow>
             (Inr (sort_key p_Timestamp
                     (map (\<lambda>(t, v). \<lparr>p_Timestamp = t, p_Value = v, p_Unit = q_Unit q,
                                      p_volume_id = None, p_partition = None\<rparr>) dps)),
              st'))"

text \<open>\<open>max(d["Timestamp"] for d in existing)\<close>, for a non-empty list.\<close>

definition latest_timestamp :: "point list \<Rightarrow> rat" where
  "latest_timestamp existing =
     fold max (map p_Timestamp (tl existing)) (p_Timestamp (hd existing))"

text \<open>Step 1, one instance-level metric: merge the cached points with the fetched gap.\<close>

definition merge_instance_metric ::
  "metrics_env \<Rightarrow> string \<Rightarrow> rat \<Rightarrow> rat \<Rightarrow> int \<Rightarrow> bool \<Rightarrow> (string \<rightharpoonup> point list) \<Rightarrow>
   string \<times> string \<times> string \<times> string \<times> string \<Rightarrow> mstep" where
  "merge_instance_metric E instance_id start_time end_time period active loaded m st =
     (case m of (label, ns, name, unit, stat) \<Rightarrow>
        let existing = (case loaded label of None \<Rightarrow> [] | Some ps \<Rightarrow> ps);
            st1 = st\<lparr>ms_results := (ms_results st)(label \<mapsto> existing)\<rparr>
        in if active then
             (let fetch_start = (if existing \<noteq> [] then latest_timestamp existing + of_int period
                                 else start_time)
              in if fetch_start < end_time then
                   (case fetch_metric E label
                           \<lparr>q_Namespace = ns, q_MetricName = name,
                            q_Dimensions = [(''InstanceId'', instance_id)],
                            q_StartTime = fetch_start, q_EndTime = end_time,
                            q_Period = period, q_Statistic = stat, q_Unit = unit\<rparr> st1 of
                      (Inl e, st2) \<Rightarrow> (Some e, st2)
                    | (Inr new_pts, st2) \<Rightarrow>
                        (None, st2\<lparr>ms_results := (ms_results st2)(label \<mapsto> existing @ new_pts),
                                   ms_all_actions := ms_all_actions st2 @
                                     map (\<lambda>dp. \<lparr>ia_instance_id = instance_id, ia_metric = label,
                                                ia_point = dp\<rparr>) new_pts\<rparr>))
                 else (None, st1))
           else (None, st1))"

definition METRICS :: "(string \<times> string \<times> string \<times> string \<times> string) list" where
  "METRICS =
     [(''cpu'', ''AWS/EC2'', ''CPUUtilization'', ''Percent'', ''Average''),
      (''network_in'', ''AWS/EC2'', ''NetworkIn'', ''Bytes'', ''Average''),
      (''network_out'', ''AWS/EC2'', ''NetworkOut'', ''Bytes'', ''Average'')]"

text \<open>\<open>vol_data.setdefault(part, fresh)\<close> followed by the assignment of one series.\<close>

fun vol_store ::
  "(string \<times> vol_entry) list \<Rightarrow> string \<Rightarrow> vol_entry \<Rightarrow> (vol_entry \<Rightarrow> vol_entry) \<Rightarrow>
   (string \<times> vol_entry) list" where
  "vol_store [] part fresh upd = [(part, upd fresh)]"
| "vol_store ((k, e) # rest) part fresh upd =
     (if k = part then (k, upd e) # rest else (k, e) # vol_store rest part fresh upd)"

text \<open>Step 2, one volume metric of one block device.\<close>

definition merge_volume_metric ::
  "metrics_env \<Rightarrow> string \<Rightarrow> rat \<Rightarrow> rat \<Rightarrow> int \<Rightarrow> bool \<Rightarrow> (string \<rightharpoonup> point list) \<Rightarrow>
   (string \<rightharpoonup> string) \<Rightarrow> string \<times> string \<times> vol_metric \<times> string \<Rightarrow> mstep" where
  "merge_volume_metric E instance_id start_time end_time period active loaded partition_map vt st =
     (case vt of (dev, vol, cw_metric, label) \<Rightarrow>
        let existing = (case loaded label of None \<Rightarrow> [] | Some ps \<Rightarrow> ps);
            part = (if dev = ''/dev/sda1'' then ''/''
                    else case partition_map vol of Some p \<Rightarrow> p | None \<Rightarrow> dev);
            stash = (\<lambda>combined s.
                       s\<lparr>ms_vol_data :=
                           vol_store (ms_vol_data s) part
                             \<lparr>ve_device = dev, ve_volume_id = vol, ve_read_bytes = [],
                              ve_write_bytes = [], ve_read_ops = [], ve_write_ops = [],
                              ve_idle_time = []\<rparr>
                             (set_series cw_metric combined)\<rparr>)
        in if active then
             (let fetch_start = (if existing \<noteq> [] then latest_timestamp existing + of_int period
                                 else start_time)
              in if fetch_start < end_time then
                   (case fetch_metric E label
                           \<lparr>q_Namespace = ''AWS/EBS'', q_MetricName = vol_metric_name cw_metric,
                            q_Dimensions = [(''VolumeId'', vol)],
                            q_StartTime = fetch_start, q_EndTime = end_time,
                            q_Period = period, q_Statistic = ''Sum'',
                            q_Unit = vol_metric_unit cw_metric\<rparr> st of
                      (Inl e, st2) \<Rightarrow> (Some e, st2)
                    | (Inr fetched, st2) \<Rightarrow>
                        (let new_pts = map (\<lambda>dp. dp\<lparr>p_volume_id := Some vol,
                                                       p_partition := Some part\<rparr>) fetched
                         in (None, stash (existing @ new_pts)
                               (st2\<lparr>ms_all_actions := ms_all_actions st2 @
                                      map (\<lambda>dp. \<lparr>ia_instance_id = instance_id,
                                                 ia_metric = label, ia_point = dp\<rparr>) new_pts\<rparr>))))
                 else (None, stash existing st))
           else (None, stash existing st))"

definition vol_tasks_of :: "block_device list \<Rightarrow> (string \<times> string \<times> vol_metric \<times> string) list" where
  "vol_tasks_of mappings =
     concat (map (\<lambda>m. map (\<lambda>cw_metric.
                             (bd_DeviceName m, bd_VolumeId m, cw_metric,
                              bd_VolumeId m @ ''__'' @ vol_metric_name cw_metric))
                        [VolumeReadBytes, VolumeWriteBytes, VolumeReadOps, VolumeWriteOps,
                         VolumeIdleTime])
             mappings)"

text \<open>Step 3: the queued points go to the store in one \<open>es_bulk_index\<close> call.\<close>

definition bulk_index_step :: "metrics_env \<Rightarrow> bool \<Rightarrow> mstep" where
  "bulk_index_step E active st =
     (if active \<and> ms_all_actions st \<noteq> [] then
        (case es_bulk_index_raises E of
           Some e \<Rightarrow> (Some e, st)
         | None \<Rightarrow> (None, st\<lparr>ms_indexed := ms_indexed st @ ms_all_actions st\<rparr>))
      else (None, st))"

text \<open>
  \<open>{d["Timestamp"]: d for d in series}\<close>: the last point of a timestamp wins;
  \<open>sorted(a.keys() & b.keys())\<close>: the common timestamps, each once, ascending.
\<close>

definition by_timestamp :: "point list \<Rightarrow> rat \<rightharpoonup> point" where
  "by_timestamp series = map_of (rev (map (\<lambda>d. (p_Timestamp d, d)) series))"

definition common_ts :: "point list \<Rightarrow> point list \<Rightarrow> rat list" where
  "common_ts a b =
     sort (remdups (filter (\<lambda>t. t \<in> set (map p_Timestamp b)) (map p_Timestamp a)))"

definition value_at :: "point list \<Rightarrow> rat \<Rightarrow> rat" where
  "value_at series ts = (case by_timestamp series ts of Some d \<Rightarrow> p_Value d | None \<Rightarrow> 0)"

text \<open>Step 4: the network totals.\<close>

definition network_total :: "arith \<Rightarrow> point list \<Rightarrow> point list \<Rightarrow> point list" where
  "network_total F ins outs =
     map (\<lambda>ts. \<lparr>p_Timestamp = ts, p_Value = f_add F (value_at ins ts) (value_at outs ts),
                p_Unit = ''Bytes'', p_volume_id = None, p_partition = None\<rparr>)
       (common_ts ins outs)"

definition network_total_pct :: "arith \<Rightarrow> rat \<Rightarrow> point list \<Rightarrow> point list \<Rightarrow> point list" where
  "network_total_pct F bw_bps ins outs =
     map (\<lambda>ts. \<lparr>p_Timestamp = ts,
                p_Value = f_round3 F
                            (f_mul F
                               (f_div F
                                  (f_mul F (f_add F (value_at ins ts) (value_at outs ts)) 8)
                                  bw_bps)
                               100),
                p_Unit = ''Percent'', p_volume_id = None, p_partition = None\<rparr>)
       (common_ts ins outs)"

definition derive_network :: "arith \<Rightarrow> metrics_env \<Rightarrow> string \<Rightarrow> mstep" where
  "derive_network F E instance_type st =
     (let ins = (case ms_results st ''network_in'' of None \<Rightarrow> [] | Some ps \<Rightarrow> ps);
          outs = (case ms_results st ''network_out'' of None \<Rightarrow> [] | Some ps \<Rightarrow> ps)
      in if ins \<noteq> [] \<and> outs \<noteq> [] then
           (case (if instance_type \<noteq> [] then
                    ebind (bandwidth_gbps E instance_type) (\<lambda>g. Inr (Some (f_mul F g 1000000000)))
                  else Inr None) of
              Inl e \<Rightarrow> (Some e, st)
            | Inr bw_bps \<Rightarrow>
                (let total_pct = (case bw_bps of
                                    None \<Rightarrow> []
                                  | Some b \<Rightarrow> if b \<noteq> 0 then network_total_pct F b ins outs else []);
                     r1 = (ms_results st)(''network_total'' \<mapsto> network_total F ins outs)
                 in (None, st\<lparr>ms_results :=
                                (if total_pct \<noteq> [] then r1(''network_total_pct'' \<mapsto> total_pct)
                                 else r1)\<rparr>)))
         else (None, st))"

text \<open>Step 5: throughput, operations and idle percentage of one mount point.\<close>

definition per_period ::
  "arith \<Rightarrow> int \<Rightarrow> string \<Rightarrow> string \<Rightarrow> string \<Rightarrow> point list \<Rightarrow> point list \<Rightarrow>
   exn + point list" where
  "per_period F period unit vol_id part a b =
     (if common_ts a b \<noteq> [] \<and> period = 0 then Inl ZeroDivisionError
      else Inr (map (\<lambda>ts. \<lparr>p_Timestamp = ts,
                           p_Value = f_div F (f_add F (value_at a ts) (value_at b ts))
                                       (of_int period),
                           p_Unit = unit, p_volume_id = Some vol_id, p_partition = Some part\<rparr>)
                  (common_ts a b)))"

definition idle_pct ::
  "arith \<Rightarrow> int \<Rightarrow> string \<Rightarrow> string \<Rightarrow> point list \<Rightarrow> exn + point list" where
  "idle_pct F period vol_id part it =
     (if it \<noteq> [] \<and> period = 0 then Inl ZeroDivisionError
      else Inr (map (\<lambda>ts. \<lparr>p_Timestamp = ts,
                           p_Value = f_round3 F
                                       (f_mul F (f_div F (value_at it ts) (of_int period)) 100),
                           p_Unit = ''Percent'', p_volume_id = Some vol_id,
                           p_partition = Some part\<rparr>)
                  (common_ts it it)))"

definition derive_mount :: "arith \<Rightarrow> int \<Rightarrow> string \<times> vol_entry \<Rightarrow> mstep" where
  "derive_mount F period pd st =
     (case pd of (part, data) \<Rightarrow>
        (case per_period F period ''Bytes'' (ve_volume_id data) part
                (ve_read_bytes data) (ve_write_bytes data) of
           Inl e \<Rightarrow> (Some e, st)
         | Inr thr \<Rightarrow>
             (let st1 = st\<lparr>ms_results := (ms_results st)(part @ ''_throughput'' \<mapsto> thr)\<rparr>
              in case per_period F period ''Ops/s'' (ve_volume_id data) part
                        (ve_read_ops data) (ve_write_ops data) of
                   Inl e \<Rightarrow> (Some e, st1)
                 | Inr ops \<Rightarrow>
                     (let st2 = st1\<lparr>ms_results := (ms_results st1)(part @ ''_operations'' \<mapsto> ops)\<rparr>
                      in case idle_pct F period (ve_volume_id data) part (ve_idle_time data) of
                           Inl e \<Rightarrow> (Some e, st2)
                         | Inr idle \<Rightarrow>
                             (None, st2\<lparr>ms_results :=
                                         (ms_results st2)(part @ ''_idle_time_pct'' \<mapsto> idle)\<rparr>)))))"

text \<open>
  \<open>desc["Reservations"][0]["Instances"][0]["BlockDeviceMappings"]\<close>, with \<open>IndexError\<close>
  caught, and the labels handed to \<open>es_bulk_load\<close>.
\<close>

definition mappings_of :: "block_device list list list \<Rightarrow> block_device list" where
  "mappings_of desc =
     (case desc of [] \<Rightarrow> [] | r # rs \<Rightarrow> (case r of [] \<Rightarrow> [] | i # is \<Rightarrow> i))"

definition metric_labels :: "block_device list \<Rightarrow> string list" where
  "metric_labels mappings =
     map fst METRICS @ map (\<lambda>(dev, vol, cw_metric, label). label) (vol_tasks_of mappings)"

text \<open>
  \<open>get_instance_metrics\<close>, with the window already parsed.  The mapping it returns is
  \<open>ms_results\<close> of the final state when no exception is left.
\<close>

definition get_instance_metrics ::
  "arith \<Rightarrow> metrics_env \<Rightarrow> string \<Rightarrow> rat \<Rightarrow> rat \<Rightarrow> string \<Rightarrow> bool \<Rightarrow> int \<Rightarrow>
   (string \<rightharpoonup> string) \<Rightarrow> exn option \<times> mstate" where
  "get_instance_metrics F E instance_id start_time end_time instance_type active_fetch_cloudwatch
       period partition_map =
     (case describe_instances E instance_id of
        Inl (ClientError code msg) \<Rightarrow>
          if code = Some ''InvalidInstanceID.NotFound'' then (None, init_mstate)
          else (Some (ClientError code msg), init_mstate)
      | Inl e \<Rightarrow> (Some e, init_mstate)
      | Inr desc \<Rightarrow>
          (case es_bulk_load E (metric_labels (mappings_of desc)) of
             Inl e \<Rightarrow> (Some e, init_mstate)
           | Inr loaded \<Rightarrow>
               mseq (sfold (merge_instance_metric E instance_id start_time end_time period
                              active_fetch_cloudwatch loaded) METRICS)
              (mseq (sfold (merge_volume_metric E instance_id start_time end_time period
                              active_fetch_cloudwatch loaded partition_map)
                       (vol_tasks_of (mappings_of desc)))
              (mseq (bulk_index_step E active_fetch_cloudwatch)
              (mseq (derive_network F E instance_type)
                    (\<lambda>st. sfold (derive_mount F period) (ms_vol_data st) st))))
                init_mstate))"

text \<open>
  The specification's words for the gap: nothing is requested when the cached series
  reaches the window's end, otherwise the remainder from the latest cached timestamp plus
  one period (or the whole window when nothing is cached).
\<close>

definition cached :: "(string \<rightharpoonup> point list) \<Rightarrow> string \<Rightarrow> point list" where
  "cached loaded label = (case loaded label of None \<Rightarrow> [] | Some ps \<Rightarrow> ps)"

definition gap_start :: "point list \<Rightarrow> rat \<Rightarrow> int \<Rightarrow> rat" where
  "gap_start existing start_time period =
     (if existing = [] then start_time
      else Max (p_Timestamp ` set existing) + of_int period)"



text \<open>
  The caller, \<open>_process_host\<close>: \<open>aggregated["cloudwatch"]\<close> is the returned mapping, or \<open>{}\<close>
  after any exception; the period is the default, 300.
\<close>

definition process_host_cloudwatch ::
  "arith \<Rightarrow> metrics_env \<Rightarrow> string \<Rightarrow> rat \<Rightarrow> rat \<Rightarrow> string \<Rightarrow> bool \<Rightarrow> (string \<rightharpoonup> string) \<Rightarrow>
   string \<rightharpoonup> point list" where
  "process_host_cloudwatch F E instance_id start_time end_time instance_type
       active_fetch_cloudwatch partition_map =
     (case get_instance_metrics F E instance_id start_time end_time instance_type
             active_fetch_cloudwatch 300 partition_map of
        (None, st) \<Rightarrow> ms_results st
      | (Some e, st) \<Rightarrow> Map.empty)"

text \<open>The keys under which step 5 stores the series it derives for a mount point.\<close>

definition mount_key :: "string \<Rightarrow> bool" where
  "mount_key k \<longleftrightarrow> (\<exists>part. k = part @ ''_throughput'' \<or> k = part @ ''_operations'' \<or>
                         k = part @ ''_idle_time_pct'')"



text \<open>
  The example: instance \<open>i-A\<close> has no volume; in the window from 0 to 900, \<open>cpu\<close> is cached up
  to 900, \<open>network_in\<close> up to 300 and \<open>network_out\<close> not at all; the metrics API has one more
  point of \<open>network_in\<close>, at 600, and one of \<open>network_out\<close>, at 300.  Every other instance
  is unknown to the provider, and \<open>i-X\<close> cannot be described for lack of rights.  The call
  is made with period 300, live fetching, and no instance type (so no bandwidth
  percentage); \<open>ex_final\<close> is the state it ends in.
\<close>

definition ex_point :: "rat \<Rightarrow> rat \<Rightarrow> string \<Rightarrow> point" where
  "ex_point t v u = \<lparr>p_Timestamp = t, p_Value = v, p_Unit = u, p_volume_id = None,
                     p_partition = None\<rparr>"

definition ex_loaded :: "string \<rightharpoonup> point list" where
  "ex_loaded = [''cpu'' \<mapsto> [ex_point 600 10 ''Percent'', ex_point 900 20 ''Percent''],
                ''network_in'' \<mapsto> [ex_point 300 100 ''Bytes''],
                ''network_out'' \<mapsto> []]"

definition ex_metrics_env :: metrics_env where
  "ex_metrics_env =
     \<lparr>describe_instances =
        (\<lambda>i. if i = ''i-A'' then Inr [[[]]]
             else if i = ''i-X'' then
               Inl (ClientError (Some ''UnauthorizedOperation'') ''You are not authorized'')
             else Inl (ClientError (Some ''InvalidInstanceID.NotFound'')
                         ''The instance ID does not exist'')),
      es_bulk_load = (\<lambda>labels. Inr ex_loaded),
      get_metric_statistics =
        (\<lambda>q. if q_MetricName q = ''NetworkIn'' then Inr [(600, 200)]
             else if q_MetricName q = ''NetworkOut'' then Inr [(300, 50)]
             else Inr []),
      es_bulk_index_raises = None,
      bandwidth_gbps = (\<lambda>t. Inr 10)\<rparr>"



section \<open>Properties of the ScaleOrchestrator\<close>

lemma advances_trans:
  "advances w w1 doc js cs \<Longrightarrow> advances w1 w2 doc js' cs' \<Longrightarrow> advances w w2 doc (js @ js') (cs @ cs')"
  by (simp add: advances_def)

lemma append_step_ok:
  assumes "es_docs w doc_id \<noteq> None"
  shows "\<exists>w'. append_step E doc_id s p st m w = (None, w') \<and>
              advances w w' doc_id [(s, p, st, m)] [] \<and> status_of w' doc_id = Some st"
  using assms
  by (auto simp: append_step_def es_update_def Let_def mark_canceled_def advances_def
      journal_def steps_of_def status_of_def painless_append_def split: option.splits)

lemma ec2_do_ok:
  "es_docs w doc_id \<noteq> None \<Longrightarrow> ec2_raises E c = None \<Longrightarrow>
   \<exists>w'. ec2_do E c w = (None, w') \<and> advances w w' doc_id [] [c]"
  by (simp add: ec2_do_def advances_def journal_def steps_of_def)

lemma ec2_do_fail:
  "es_docs w doc_id \<noteq> None \<Longrightarrow> ec2_raises E c = Some e \<Longrightarrow>
   \<exists>w'. ec2_do E c w = (Some e, w') \<and> advances w w' doc_id [] [c]"
  by (simp add: ec2_do_def advances_def journal_def steps_of_def)

lemma adv_present: "advances w w' doc_id js cs \<Longrightarrow> es_docs w' doc_id \<noteq> None"
  by (simp add: advances_def)

lemma stop_instance_ok:
  assumes p: "es_docs w doc_id \<noteq> None"
    and s1: "ec2_raises E (StopInstances i) = None"
    and s2: "ec2_raises E (WaitInstanceStopped i) = None"
  shows "\<exists>w'. stop_instance E doc_id i w = (None, w') \<and>
     advances w w' doc_id [(''Stopping instance'', 10, ''in_progress'', ''''),
                           (''Instance stopped'', 30, ''in_progress'', '''')]
        [StopInstances i, WaitInstanceStopped i]"
proof -
  from append_step_ok[OF p] obtain w1 where
    a1: "append_step E doc_id ''Stopping instance'' 10 ''in_progress'' '''' w = (None, w1)"
    and v1: "advances w w1 doc_id [(''Stopping instance'', 10, ''in_progress'', '''')] []"
    by blast
  from ec2_do_ok[OF adv_present[OF v1] s1] obtain w2 where
    a2: "ec2_do E (StopInstances i) w1 = (None, w2)"
    and v2: "advances w1 w2 doc_id [] [StopInstances i]" by blast
  from ec2_do_ok[OF adv_present[OF v2] s2] obtain w3 where
    a3: "ec2_do E (WaitInstanceStopped i) w2 = (None, w3)"
    and v3: "advances w2 w3 doc_id [] [WaitInstanceStopped i]" by blast
  from append_step_ok[OF adv_present[OF v3]] obtain w4 where
    a4: "append_step E doc_id ''Instance stopped'' 30 ''in_progress'' '''' w3 = (None, w4)"
    and v4: "advances w3 w4 doc_id [(''Instance stopped'', 30, ''in_progress'', '''')] []"
    by blast
  have "stop_instance E doc_id i w = (None, w4)"
    unfolding stop_instance_def seq_def by (simp add: a1 a2 a3 a4)
  moreover have "advances w w4 doc_id [(''Stopping instance'', 10, ''in_progress'', ''''),
                           (''Instance stopped'', 30, ''in_progress'', '''')]
        [StopInstances i, WaitInstanceStopped i]"
    using advances_trans[OF advances_trans[OF advances_trans[OF v1 v2] v3] v4] by simp
  ultimately show ?thesis by blast
qed

lemma change_instance_type_ok:
  assumes p: "es_docs w doc_id \<noteq> None"
    and s1: "ec2_raises E (ModifyInstanceType i t) = None"
  shows "\<exists>w'. change_instance_type E doc_id i t w = (None, w') \<and>
     advances w w' doc_id [(''Changing instance type'', 40, ''in_progress'', ''''),
                           (''Instance type changed'', 60, ''in_progress'', '''')]
        [ModifyInstanceType i t]"
proof -
  from append_step_ok[OF p] obtain w1 where
    a1: "append_step E doc_id ''Changing instance type'' 40 ''in_progress'' '''' w = (None, w1)"
    and v1: "advances w w1 doc_id [(''Changing instance type'', 40, ''in_progress'', '''')] []"
    by blast
  from ec2_do_ok[OF adv_present[OF v1] s1] obtain w2 where
    a2: "ec2_do E (ModifyInstanceType i t) w1 = (None, w2)"
    and v2: "advances w1 w2 doc_id [] [ModifyInstanceType i t]" by blast
  from append_step_ok[OF adv_present[OF v2]] obtain w4 where
    a4: "append_step E doc_id ''Instance type changed'' 60 ''in_progress'' '''' w2 = (None, w4)"
    and v4: "advances w2 w4 doc_id [(''Instance type changed'', 60, ''in_progress'', '''')] []"
    by blast
  have "change_instance_type E doc_id i t w = (None, w4)"
    unfolding change_instance_type_def seq_def by (simp add: a1 a2 a4)
  moreover have "advances w w4 doc_id [(''Changing instance type'', 40, ''in_progress'', ''''),
                           (''Instance type changed'', 60, ''in_progress'', '''')]
        [ModifyInstanceType i t]"
    using advances_trans[OF advances_trans[OF v1 v2] v4] by simp
  ultimately show ?thesis by blast
qed

lemma change_instance_type_fail:
  assumes p: "es_docs w doc_id \<noteq> None"
    and s1: "ec2_raises E (ModifyInstanceType i t) = Some e"
  shows "\<exists>w'. change_instance_type E doc_id i t w = (Some e, w') \<and>
     advances w w' doc_id [(''Changing instance type'', 40, ''in_progress'', '''')]
        [ModifyInstanceType i t]"
proof -
  from append_step_ok[OF p] obtain w1 where
    a1: "append_step E doc_id ''Changing instance type'' 40 ''in_progress'' '''' w = (None, w1)"
    and v1: "advances w w1 doc_id [(''Changing instance type'', 40, ''in_progress'', '''')] []"
    by blast
  from ec2_do_fail[OF adv_present[OF v1] s1] obtain w2 where
    a2: "ec2_do E (ModifyInstanceType i t) w1 = (Some e, w2)"
    and v2: "advances w1 w2 doc_id [] [ModifyInstanceType i t]" by blast
  have "change_instance_type E doc_id i t w = (Some e, w2)"
    unfolding change_instance_type_def seq_def by (simp add: a1 a2)
  moreover have "advances w w2 doc_id [(''Changing instance type'', 40, ''in_progress'', '''')]
        [ModifyInstanceType i t]"
    using advances_trans[OF v1 v2] by simp
  ultimately show ?thesis by blast
qed

lemma start_instance_ok:
  assumes p: "es_docs w doc_id \<noteq> None"
    and s1: "ec2_raises E (StartInstances i) = None"
    and s2: "ec2_raises E (WaitInstanceRunning i) = None"
  shows "\<exists>w'. start_instance E doc_id i w = (None, w') \<and>
     advances w w' doc_id [(''Starting instance'', 70, ''in_progress'', ''''),
                           (''Instance running'', 100, ''completed'', '''')]
        [StartInstances i, WaitInstanceRunning i] \<and> status_of w' doc_id = Some ''completed''"
proof -
  from append_step_ok[OF p] obtain w1 where
    a1: "append_step E doc_id ''Starting instance'' 70 ''in_progress'' '''' w = (None, w1)"
    and v1: "advances w w1 doc_id [(''Starting instance'', 70, ''in_progress'', '''')] []"
    by blast
  from ec2_do_ok[OF adv_present[OF v1] s1] obtain w2 where
    a2: "ec2_do E (StartInstances i) w1 = (None, w2)"
    and v2: "advances w1 w2 doc_id [] [StartInstances i]" by blast
  from ec2_do_ok[OF adv_present[OF v2] s2] obtain w3 where
    a3: "ec2_do E (WaitInstanceRunning i) w2 = (None, w3)"
    and v3: "advances w2 w3 doc_id [] [WaitInstanceRunning i]" by blast
  from append_step_ok[OF adv_present[OF v3]] obtain w4 where
    a4: "append_step E doc_id ''Instance running'' 100 ''completed'' '''' w3 = (None, w4)"
    and v4: "advances w3 w4 doc_id [(''Instance running'', 100, ''completed'', '''')] []"
    and st: "status_of w4 doc_id = Some ''completed''"
    by blast
  have "start_instance E doc_id i w = (None, w4)"
    unfolding start_instance_def seq_def by (simp add: a1 a2 a3 a4)
  moreover have "advances w w4 doc_id [(''Starting instance'', 70, ''in_progress'', ''''),
                           (''Instance running'', 100, ''completed'', '''')]
        [StartInstances i, WaitInstanceRunning i]"
    using advances_trans[OF advances_trans[OF advances_trans[OF v1 v2] v3] v4] by simp
  ultimately show ?thesis using st by blast
qed

text \<open>
  Claim C1, as amended.  \<open>scale_instance\<close> never reads the log.  Whenever the log document
  exists and the five cloud-control calls succeed, then for every schedule of external
  \<open>canceled\<close> marks (before any of the orchestrator's journal writes, also before the first)
  the resize runs through: it returns normally, appends exactly the six steps
  10, 30, 40, 60, 70, 100 to the journal, issues exactly the five calls stop, wait-stopped,
  modify, start, wait-running, and leaves the status \<open>completed\<close> (each \<open>append_step\<close>
  overwrites the status, hence also a \<open>canceled\<close> mark).
\<close>

theorem scale_instance_runs_through_despite_cancel:
  assumes p: "es_docs w doc_id \<noteq> None"
    and ok: "ec2_raises E (StopInstances i) = None" "ec2_raises E (WaitInstanceStopped i) = None"
       "ec2_raises E (ModifyInstanceType i t) = None"
       "ec2_raises E (StartInstances i) = None" "ec2_raises E (WaitInstanceRunning i) = None"
  shows "fst (scale_instance E i t region doc_id w) = None \<and>
     journal (snd (scale_instance E i t region doc_id w)) doc_id =
       journal w doc_id @
        [(''Stopping instance'', 10, ''in_progress'', ''''),
         (''Instance stopped'', 30, ''in_progress'', ''''),
         (''Changing instance type'', 40, ''in_progress'', ''''),
         (''Instance type changed'', 60, ''in_progress'', ''''),
         (''Starting instance'', 70, ''in_progress'', ''''),
         (''Instance running'', 100, ''completed'', '''')] \<and>
     ec2_calls (snd (scale_instance E i t region doc_id w)) =
       ec2_calls w @ [StopInstances i, WaitInstanceStopped i, ModifyInstanceType i t,
                      StartInstances i, WaitInstanceRunning i] \<and>
     status_of (snd (scale_instance E i t region doc_id w)) doc_id = Some ''completed''"
proof -
  from stop_instance_ok[OF p ok(1) ok(2)] obtain w1 where
    a1: "stop_instance E doc_id i w = (None, w1)"
    and v1: "advances w w1 doc_id [(''Stopping instance'', 10, ''in_progress'', ''''),
                           (''Instance stopped'', 30, ''in_progress'', '''')]
        [StopInstances i, WaitInstanceStopped i]" by blast
  from change_instance_type_ok[OF adv_present[OF v1] ok(3)] obtain w2 where
    a2: "change_instance_type E doc_id i t w1 = (None, w2)"
    and v2: "advances w1 w2 doc_id [(''Changing instance type'', 40, ''in_progress'', ''''),
                           (''Instance type changed'', 60, ''in_progress'', '''')]
        [ModifyInstanceType i t]" by blast
  from start_instance_ok[OF adv_present[OF v2] ok(4) ok(5)] obtain w3 where
    a3: "start_instance E doc_id i w2 = (None, w3)"
    and v3: "advances w2 w3 doc_id [(''Starting instance'', 70, ''in_progress'', ''''),
                           (''Instance running'', 100, ''completed'', '''')]
        [StartInstances i, WaitInstanceRunning i]"
    and st: "status_of w3 doc_id = Some ''completed''" by blast
  have r: "scale_instance E i t region doc_id w = (None, w3)"
    unfolding scale_instance_def seq_def by (simp add: a1 a2 a3)
  have "advances w w3 doc_id
        ([(''Stopping instance'', 10, ''in_progress'', ''''),
         (''Instance stopped'', 30, ''in_progress'', '''')] @
         [(''Changing instance type'', 40, ''in_progress'', ''''),
         (''Instance type changed'', 60, ''in_progress'', '''')] @
         [(''Starting instance'', 70, ''in_progress'', ''''),
         (''Instance running'', 100, ''completed'', '''')])
        ([StopInstances i, WaitInstanceStopped i] @ [ModifyInstanceType i t] @
                      [StartInstances i, WaitInstanceRunning i])"
    using advances_trans[OF v1 advances_trans[OF v2 v3]] .
  then show ?thesis using st by (simp add: r advances_def)
qed

text \<open>
  Claim C6.  If the log document exists, stopping succeeds and the call that changes the
  instance type raises \<open>e\<close>, then \<open>scale_instance\<close> re-raises \<open>e\<close> and the journal has grown
  by exactly: "Stopping instance" (10), "Instance stopped" (30), which is the last step
  that completed; "Changing instance type" (40), the step during which the call fails;
  and the terminal entry "Error occurred" with status \<open>failed\<close> and message \<open>str(e)\<close>, which
  is non-empty whenever the error has a text (as every exception of the cloud SDK has).
  The log's status is \<open>failed\<close>.  The calls issued are stop, wait-stopped and the failed
  modify: no start call is made and no start step is appended after the failure.
\<close>

theorem scale_instance_change_type_failure:
  assumes p: "es_docs w doc_id \<noteq> None"
    and ok: "ec2_raises E (StopInstances i) = None" "ec2_raises E (WaitInstanceStopped i) = None"
    and bad: "ec2_raises E (ModifyInstanceType i t) = Some e"
  shows "fst (scale_instance E i t region doc_id w) = Some e \<and>
     journal (snd (scale_instance E i t region doc_id w)) doc_id =
       journal w doc_id @
        [(''Stopping instance'', 10, ''in_progress'', ''''),
         (''Instance stopped'', 30, ''in_progress'', ''''),
         (''Changing instance type'', 40, ''in_progress'', ''''),
         (''Error occurred'', 0, ''failed'', exn_str e)] \<and>
     ec2_calls (snd (scale_instance E i t region doc_id w)) =
       ec2_calls w @ [StopInstances i, WaitInstanceStopped i, ModifyInstanceType i t] \<and>
     status_of (snd (scale_instance E i t region doc_id w)) doc_id = Some ''failed'' \<and>
     (exn_str e \<noteq> [] \<longrightarrow>
        st_message (last (steps_of (snd (scale_instance E i t region doc_id w)) doc_id)) \<noteq> [])"
proof -
  from stop_instance_ok[OF p ok(1) ok(2)] obtain w1 where
    a1: "stop_instance E doc_id i w = (None, w1)"
    and v1: "advances w w1 doc_id [(''Stopping instance'', 10, ''in_progress'', ''''),
                           (''Instance stopped'', 30, ''in_progress'', '''')]
        [StopInstances i, WaitInstanceStopped i]" by blast
  from change_instance_type_fail[OF adv_present[OF v1] bad] obtain w2 where
    a2: "change_instance_type E doc_id i t w1 = (Some e, w2)"
    and v2: "advances w1 w2 doc_id [(''Changing instance type'', 40, ''in_progress'', '''')]
        [ModifyInstanceType i t]" by blast
  from append_step_ok[OF adv_present[OF v2]] obtain w3 where
    a3: "append_step E doc_id ''Error occurred'' 0 ''failed'' (exn_str e) w2 = (None, w3)"
    and v3: "advances w2 w3 doc_id [(''Error occurred'', 0, ''failed'', exn_str e)] []"
    and st: "status_of w3 doc_id = Some ''failed''" by blast
  have r: "scale_instance E i t region doc_id w = (Some e, w3)"
    unfolding scale_instance_def seq_def by (simp add: a1 a2 a3)
  have "advances w w3 doc_id
        ([(''Stopping instance'', 10, ''in_progress'', ''''),
         (''Instance stopped'', 30, ''in_progress'', '''')] @
         [(''Changing instance type'', 40, ''in_progress'', '''')] @
         [(''Error occurred'', 0, ''failed'', exn_str e)])
        ([StopInstances i, WaitInstanceStopped i] @ [ModifyInstanceType i t] @ [])"
    using advances_trans[OF v1 advances_trans[OF v2 v3]] .
  then have main: "journal w3 doc_id =
       journal w doc_id @
        [(''Stopping instance'', 10, ''in_progress'', ''''),
         (''Instance stopped'', 30, ''in_progress'', ''''),
         (''Changing instance type'', 40, ''in_progress'', ''''),
         (''Error occurred'', 0, ''failed'', exn_str e)]"
    and calls: "ec2_calls w3 =
       ec2_calls w @ [StopInstances i, WaitInstanceStopped i, ModifyInstanceType i t]"
    by (simp_all add: advances_def)
  from main have ne: "steps_of w3 doc_id \<noteq> []" by (auto simp: journal_def)
  have "last (journal w3 doc_id) = (''Error occurred'', 0, ''failed'', exn_str e)"
    by (simp add: main)
  with ne have "st_message (last (steps_of w3 doc_id)) = exn_str e"
    by (simp add: journal_def last_map)
  with main calls st show ?thesis by (simp add: r)
qed

lemmas run_defs = scale_instance_def seq_def stop_instance_def change_instance_type_def
  start_instance_def append_step_def es_update_def ec2_do_def painless_append_def
  mark_canceled_def Let_def journal_def steps_of_def status_of_def

text \<open>
  Claim C1 as stated fails.  The log is already marked \<open>canceled\<close> when the resize starts
  and is marked again before every journal write, yet all six steps are appended and all
  five cloud-control calls are made.
\<close>

theorem scale_instance_cancel_counterexample:
  "status_of ex_world ''doc-1'' = Some ''canceled'' \<and>
   cancel_before ex_env_cancel 0 \<and> cancel_before ex_env_cancel 2 \<and> cancel_before ex_env_cancel 4 \<and>
   journal (snd (scale_instance ex_env_cancel ''i-0a1'' ''m5.large'' ''us-east-1'' ''doc-1'' ex_world)) ''doc-1'' =
        [(''Stopping instance'', 10, ''in_progress'', []),
         (''Instance stopped'', 30, ''in_progress'', []),
         (''Changing instance type'', 40, ''in_progress'', []),
         (''Instance type changed'', 60, ''in_progress'', []),
         (''Starting instance'', 70, ''in_progress'', []),
         (''Instance running'', 100, ''completed'', [])] \<and>
   ec2_calls (snd (scale_instance ex_env_cancel ''i-0a1'' ''m5.large'' ''us-east-1'' ''doc-1'' ex_world)) =
     [StopInstances ''i-0a1'', WaitInstanceStopped ''i-0a1'', ModifyInstanceType ''i-0a1'' ''m5.large'',
      StartInstances ''i-0a1'', WaitInstanceRunning ''i-0a1'']"
  by (simp add: run_defs ex_world_def ex_env_cancel_def ex_doc_def)

theorem scale_instance_runs_through_despite_cancel_witness:
  "es_docs ex_world ''doc-1'' \<noteq> None \<and>
   ec2_raises ex_env_cancel (ModifyInstanceType ''i-0a1'' ''m5.large'') = None \<and>
   fst (scale_instance ex_env_cancel ''i-0a1'' ''m5.large'' ''us-east-1'' ''doc-1'' ex_world) = None \<and>
   status_of (snd (scale_instance ex_env_cancel ''i-0a1'' ''m5.large'' ''us-east-1'' ''doc-1'' ex_world))
     ''doc-1'' = Some ''completed''"
proof -
  have p: "es_docs ex_world ''doc-1'' \<noteq> None" by (simp add: ex_world_def)
  have ok: "ec2_raises ex_env_cancel c = None" for c by (simp add: ex_env_cancel_def)
  show ?thesis
    using scale_instance_runs_through_despite_cancel[OF p ok ok ok ok ok,
        of "''i-0a1''" "''m5.large''" "''us-east-1''"] p ok
    by simp
qed

theorem scale_instance_change_type_failure_witness:
  "es_docs ex_world ''doc-1'' \<noteq> None \<and>
   ec2_raises ex_env_modify_fails (ModifyInstanceType ''i-0a1'' ''m5.large'') =
     Some (ClientError (Some ''InvalidParameterValue'') ''Invalid value for instanceType'') \<and>
   fst (scale_instance ex_env_modify_fails ''i-0a1'' ''m5.large'' ''us-east-1'' ''doc-1'' ex_world) =
     Some (ClientError (Some ''InvalidParameterValue'') ''Invalid value for instanceType'') \<and>
   status_of (snd (scale_instance ex_env_modify_fails ''i-0a1'' ''m5.large'' ''us-east-1'' ''doc-1''
     ex_world)) ''doc-1'' = Some ''failed'' \<and>
   journal (snd (scale_instance ex_env_modify_fails ''i-0a1'' ''m5.large'' ''us-east-1'' ''doc-1''
     ex_world)) ''doc-1'' =
     [(''Stopping instance'', 10, ''in_progress'', []),
      (''Instance stopped'', 30, ''in_progress'', []),
      (''Changing instance type'', 40, ''in_progress'', []),
      (''Error occurred'', 0, ''failed'', ''Invalid value for instanceType'')] \<and>
   st_message (last (steps_of (snd (scale_instance ex_env_modify_fails ''i-0a1'' ''m5.large''
     ''us-east-1'' ''doc-1'' ex_world)) ''doc-1'')) \<noteq> []"
proof -
  have j0: "journal ex_world ''doc-1'' = []"
    by (simp add: journal_def steps_of_def ex_world_def ex_doc_def)
  have p: "es_docs ex_world ''doc-1'' \<noteq> None" by (simp add: ex_world_def)
  have ok1: "ec2_raises ex_env_modify_fails (StopInstances ''i-0a1'') = None"
    and ok2: "ec2_raises ex_env_modify_fails (WaitInstanceStopped ''i-0a1'') = None"
    and bad: "ec2_raises ex_env_modify_fails (ModifyInstanceType ''i-0a1'' ''m5.large'') =
       Some (ClientError (Some ''InvalidParameterValue'') ''Invalid value for instanceType'')"
    by (simp_all add: ex_env_modify_fails_def)
  show ?thesis
    using scale_instance_change_type_failure[OF p ok1 ok2 bad, of "''us-east-1''"] p bad j0
    by simp
qed

section \<open>Properties of the RuleEvaluator\<close>

lemma ebind_Inr_iff: "ebind m f = Inr y \<longleftrightarrow> (\<exists>x. m = Inr x \<and> f x = Inr y)"
  by (cases m) auto

lemma record_match_finding:
  "record_match service key (case c_description c of None \<Rightarrow> dflt c | Some d \<Rightarrow> Descr d) val res
     = res((service, key) \<mapsto> finding_of dflt c val)"
  by (simp add: record_match_def finding_of_def)

text \<open>
  Claim C3, as amended.  For the condition loop of one (service, metric) pair (default
  bucket, cloudwatch, ram and dict-shaped services): when the loop returns, the pair's
  record is the one of the LAST matching condition in configuration order (each match
  overwrites the previous one; with no match, or a \<open>None\<close> value under the guard, the
  record is left as it was), no other pair is touched, and every configured condition has
  been tested (each comparison returned), none being skipped after a match.
\<close>

theorem test_conditions_last_match:
  assumes "test_conditions guard dflt service key val cs res = Inr res'"
  shows "res' (service, key) =
           (if (guard \<and> val = PNone) \<or> matching val cs = [] then res (service, key)
            else Some (finding_of dflt (last (matching val cs)) val))
         \<and> (\<forall>k. k \<noteq> (service, key) \<longrightarrow> res' k = res k)
         \<and> ((guard \<and> val = PNone) \<or>
            (\<forall>c \<in> set cs. \<exists>b. compare val (c_compare_logic c) (c_value c) = Inr b))"
  using assms
proof (induction cs arbitrary: res)
  case Nil
  then show ?case by (simp add: matching_def)
next
  case (Cons c cs)
  show ?case
  proof (cases "guard \<and> val = PNone")
    case True
    with Cons show ?thesis by simp
  next
    case False
    with Cons.prems obtain hit where
      h: "compare val (c_compare_logic c) (c_value c) = Inr hit"
      and r: "test_conditions guard dflt service key val cs
                (if hit then record_match service key
                   (case c_description c of None \<Rightarrow> dflt c | Some d \<Rightarrow> Descr d) val res
                 else res) = Inr res'"
      by (auto simp: ebind_Inr_iff)
    from Cons.IH[OF r] False h show ?thesis
      by (cases "matching val cs = []")
         (auto simp: matching_def record_match_finding)
  qed
qed

text \<open>
  Claim C3 as stated fails.  Two conditions on \<open>mongodb.connections\<close> both match the value
  150; the first in configuration order is "warning", the record holds "critical".
\<close>

theorem first_match_counterexample:
  "map c_description (matching (PNum 150) ex_conditions) = [Some ''warning'', Some ''critical''] \<and>
   server_status_check ex_fail_state ex_tasks =
     Inr [(''mongodb'', Some ''connections'') \<mapsto>
           \<lparr>f_description = Descr ''critical'', f_result = True, f_detail = PNum 150\<rparr>]"
  by (simp add: server_status_check_def check_snapshot_def check_default_def
      check_service_def check_dict_conf_def ex_fail_state_def ex_tasks_def compare_def
      record_match_def fstring_descr_def matching_def ex_conditions_def)

theorem test_conditions_last_match_witness:
  "test_conditions True (fstring_descr ''connections'') ''mongodb'' (Some ''connections'')
     (PNum 150) ex_conditions Map.empty =
     Inr [(''mongodb'', Some ''connections'') \<mapsto>
           \<lparr>f_description = Descr ''critical'', f_result = True, f_detail = PNum 150\<rparr>] \<and>
   last (matching (PNum 150) ex_conditions) = ex_conditions ! 1"
proof -
  have h: "test_conditions True (fstring_descr ''connections'') ''mongodb'' (Some ''connections'')
     (PNum 150) ex_conditions Map.empty =
     Inr [(''mongodb'', Some ''connections'') \<mapsto>
           \<lparr>f_description = Descr ''critical'', f_result = True, f_detail = PNum 150\<rparr>]"
    by (simp add: ex_conditions_def compare_def record_match_def)
  show ?thesis
    using test_conditions_last_match[OF h] h
    by (simp add: ex_conditions_def matching_def compare_def)
qed

section \<open>Properties of the SafetyGate\<close>




lemma collapse_on_keys:
  "set (map key (collapse_on key seen xs)) = set (map key xs) - set seen"
  by (induction xs arbitrary: seen) auto

lemma collapse_on_length: "length (collapse_on key seen xs) \<le> length xs"
  by (induction xs arbitrary: seen) (auto simp: le_SucI)


lemma peers_under_covers:
  assumes "length (filter (shares_group cur tag) docs) \<le> 1000"
    and "d \<in> set docs" and "shares_group cur tag d"
  shows "\<exists>p \<in> set (peers_under cur docs tag). md_Tags p ''hostName'' = md_Tags d ''hostName''"
proof -
  let ?k = "\<lambda>d. md_Tags d ''hostName''"
  let ?s = "sort_key (\<lambda>d. - md_timestamp d) (filter (shares_group cur tag) docs)"
  have "length (collapse_on ?k [] ?s) \<le> 1000"
    using collapse_on_length[of ?k "[]" ?s] assms(1) by simp
  then have p: "peers_under cur docs tag = collapse_on ?k [] ?s"
    by (simp add: peers_under_def)
  have "?k d \<in> set (map ?k ?s)" using assms(2,3) by simp
  then have "?k d \<in> set (map ?k (collapse_on ?k [] ?s))"
    by (simp only: collapse_on_keys) simp
  then show ?thesis unfolding p by auto
qed


















section \<open>Properties of the RightsizingEngine\<close>

lemmas sizing_defs = recommend_sizing_def host_series_def series_values_def mean_cpu_pct_def
  py_mean_def ram_triple_def to_mib_def family_of_def candidates_def list_instance_types_def
  required_ram_up_def required_ram_down_def effective_swap_def

lemma sizing_fields:
  assumes "recommend_sizing F g l host th = Inr s"
  shows "g (s_current s) = Inr (s_specs s)"
    and "s_over s = (cpu_upper th < s_cpu_pct s \<or> swap_upper th < s_swap_pct s \<or>
                     net_upper th < s_net_pct s)"
    and "s_under s = (s_cpu_pct s < cpu_lower th \<and> s_swap_pct s < swap_lower th \<and>
                      s_net_pct s < net_lower th)"
    and "s_rec_swap_mib s = get_dynamic_itil_swap F (memory_mib (s_specs s)) 2 1 16384"
    and "s_effective_swap_mib s = effective_swap (s_rec_swap_mib s) (s_configured_swap_mib s)"
    and "s_req_mem_min s = f_add F (of_int \<lceil>s_mem_used_mib s\<rceil>) (s_effective_swap_mib s)"
    and "\<exists>ram_up. required_ram_up F th (s_used_swap_mib s) (s_configured_swap_mib s)
                     (memory_mib (s_specs s)) = Inr ram_up \<and>
                   s_req_mem_up s = f_add F ram_up (s_effective_swap_mib s)"
    and "\<exists>pts. host_series host ''cpu'' = Inr pts \<and> mean_cpu_pct pts = Inr (s_cpu_pct s)"
  using assms unfolding recommend_sizing_def
  by (auto simp: ebind_Inr_iff Let_def split: prod.splits)

lemma ex_itil_swap: "get_dynamic_itil_swap ex_arith 16384 2 1 16384 = 22412"
proof -
  have "\<lceil>(3080190670773735 :: rat) / 137438953472\<rceil> = 22412"
    by (rule ceiling_unique) simp_all
  then show ?thesis
    by (simp add: get_dynamic_itil_swap_def ex_arith_def Let_def)
qed

lemma ex_sizing_noswap_run:
  "recommend_sizing ex_arith ex_get_instance_specs ex_listing (ex_host ex_disk_noswap)
     default_thresholds = Inr ex_sizing_noswap"
  by (simp add: sizing_defs ex_host_def ex_disk_noswap_def ex_listing_def ex_get_instance_specs_def
   default_thresholds_def Let_def ex_sizing_noswap_def ex_itil_swap)
     (simp add: ex_arith_def)

lemma ex_sizing_swap_run:
  "recommend_sizing ex_arith ex_get_instance_specs ex_listing (ex_host ex_disk_swap)
     default_thresholds = Inr ex_sizing_swap"
  by (simp add: sizing_defs ex_host_def ex_disk_swap_def ex_listing_def ex_get_instance_specs_def
   default_thresholds_def Let_def ex_sizing_swap_def ex_itil_swap)
     (simp add: ex_arith_def)

text \<open>
  Claim C4, as amended.  When \<open>recommend_instance\<close> reaches its decision, in whatever
  arithmetic, the recommended swap is the value of \<open>get_dynamic_itil_swap\<close> for the RAM of
  the instance type (the machine's evaluation of \<open>ceil(ram * (1 + exp(-ram/16384)))\<close>); the
  effective swap is the smaller of the recommended and the configured swap when the
  configured swap is not zero, and the recommended swap itself when the host has no (or
  zero) configured swap; this effective swap is what both memory requirements add.
\<close>

theorem effective_swap_guarded_min:
  assumes "recommend_sizing F g l host th = Inr s"
  shows "s_rec_swap_mib s = get_dynamic_itil_swap F (memory_mib (s_specs s)) 2 1 16384
       \<and> s_effective_swap_mib s =
           (if s_configured_swap_mib s \<noteq> 0
            then min (of_int (s_rec_swap_mib s)) (s_configured_swap_mib s)
            else of_int (s_rec_swap_mib s))
       \<and> s_req_mem_min s = f_add F (of_int \<lceil>s_mem_used_mib s\<rceil>) (s_effective_swap_mib s)
       \<and> (\<exists>ram_up. required_ram_up F th (s_used_swap_mib s) (s_configured_swap_mib s)
                     (memory_mib (s_specs s)) = Inr ram_up \<and>
                   s_req_mem_up s = f_add F ram_up (s_effective_swap_mib s))"
  using sizing_fields(4,5,6,7)[OF assms]
  by (simp add: effective_swap_def)

text \<open>
  Claim C4 as stated fails for a host without swap: the configured swap is 0, so the
  smaller of the two is 0, but the effective swap is the recommended one, 22412 MiB for
  16384 MiB of RAM.
\<close>

theorem effective_swap_zero_configured_counterexample:
  "recommend_sizing ex_arith ex_get_instance_specs ex_listing (ex_host ex_disk_noswap)
     default_thresholds = Inr ex_sizing_noswap \<and>
   s_configured_swap_mib ex_sizing_noswap = 0 \<and>
   s_rec_swap_mib ex_sizing_noswap = 22412 \<and>
   s_effective_swap_mib ex_sizing_noswap = 22412 \<and>
   min (of_int (s_rec_swap_mib ex_sizing_noswap)) (s_configured_swap_mib ex_sizing_noswap) = 0"
  using ex_sizing_noswap_run by (simp add: ex_sizing_noswap_def)

theorem effective_swap_guarded_min_witness:
  "recommend_sizing ex_arith ex_get_instance_specs ex_listing (ex_host ex_disk_swap)
     default_thresholds = Inr ex_sizing_swap \<and>
   s_effective_swap_mib ex_sizing_swap = min (of_int (s_rec_swap_mib ex_sizing_swap)) 4096 \<and>
   s_req_mem_min ex_sizing_swap = 8000 + s_effective_swap_mib ex_sizing_swap"
  using effective_swap_guarded_min[OF ex_sizing_swap_run] ex_sizing_swap_run
  by (simp add: ex_sizing_swap_def ex_arith_def)

text \<open>
  Claim C5.  Whenever \<open>recommend_instance\<close> reaches its decision with \<open>cpu_pct\<close>, \<open>swap_pct\<close>
  and \<open>net_pct\<close> each strictly between its lower and its upper threshold (and the memory
  percentage is a number, so that the reason text can be formatted), it returns
  \<open>changed = False\<close> and \<open>NewInstanceType\<close> equal to the current instance type.
\<close>

theorem hysteresis_no_change:
  assumes sz: "recommend_sizing F g l host th = Inr s"
    and cpu: "cpu_lower th < s_cpu_pct s" "s_cpu_pct s < cpu_upper th"
    and swap: "swap_lower th < s_swap_pct s" "s_swap_pct s < swap_upper th"
    and net: "net_lower th < s_net_pct s" "s_net_pct s < net_upper th"
    and pct: "as_num (s_mem_pct s) \<noteq> None"
  shows "recommend_instance F g l host th =
           Inr \<lparr>r_NewInstanceType = s_current s, r_action = ''none'', r_changed = False,
                r_MemoryUsedMiB = s_mem_used_mib s, r_MemoryTotalMiB = s_mem_total_mib s,
                r_MemoryPct = s_mem_pct s\<rparr>"
proof -
  have o: "\<not> s_over s" using sizing_fields(2)[OF sz] cpu swap net by auto
  have u: "\<not> s_under s" using sizing_fields(3)[OF sz] cpu by auto
  have c: "cmp_size g (s_current s) (s_current s) = Inr 0"
    using sizing_fields(1)[OF sz] by (simp add: cmp_size_def)
  from pct obtain x where x: "as_num (s_mem_pct s) = Some x" by auto
  show ?thesis
    by (simp add: recommend_instance_def sz o u c x)
qed

theorem hysteresis_no_change_witness:
  "recommend_sizing ex_arith ex_get_instance_specs ex_listing (ex_host ex_disk_swap)
     default_thresholds = Inr ex_sizing_swap \<and>
   s_cpu_pct ex_sizing_swap = 50 \<and> s_swap_pct ex_sizing_swap = 50 \<and> s_net_pct ex_sizing_swap = 50 \<and>
   recommend_instance ex_arith ex_get_instance_specs ex_listing (ex_host ex_disk_swap)
     default_thresholds =
     Inr \<lparr>r_NewInstanceType = ''m5.xlarge'', r_action = ''none'', r_changed = False,
          r_MemoryUsedMiB = 8000, r_MemoryTotalMiB = 16384, r_MemoryPct = PNum (3125 / 64)\<rparr>"
proof -
  have b: "cpu_lower default_thresholds < s_cpu_pct ex_sizing_swap"
      "s_cpu_pct ex_sizing_swap < cpu_upper default_thresholds"
      "swap_lower default_thresholds < s_swap_pct ex_sizing_swap"
      "s_swap_pct ex_sizing_swap < swap_upper default_thresholds"
      "net_lower default_thresholds < s_net_pct ex_sizing_swap"
      "s_net_pct ex_sizing_swap < net_upper default_thresholds"
      "as_num (s_mem_pct ex_sizing_swap) \<noteq> None"
    by (simp_all add: default_thresholds_def ex_sizing_swap_def)
  show ?thesis
    using hysteresis_no_change[OF ex_sizing_swap_run b] ex_sizing_swap_run
    by (simp add: ex_sizing_swap_def)
qed

lemma point_value_dict:
  "point_value (PDict kvs) = (case map_of kvs ''Value'' of None \<Rightarrow> None | Some v \<Rightarrow> as_num v)"
  by (simp add: point_value_def)

lemma cpu_values_wf:
  "\<forall>p \<in> set ps. wf_point p \<Longrightarrow>
   \<exists>vs. cpu_values ps = Inr vs \<and> map as_num vs = map Some (List.map_filter point_value ps)"
proof (induction ps)
  case Nil
  then show ?case by (simp add: List.map_filter_simps)
next
  case (Cons p ps)
  then obtain vs where vs: "cpu_values ps = Inr vs"
    "map as_num vs = map Some (List.map_filter point_value ps)" by auto
  from Cons.prems obtain kvs where p: "p = PDict kvs" by (cases p) (auto simp: wf_point_def)
  from Cons.prems p have w: "case map_of kvs ''Value'' of None \<Rightarrow> True
       | Some v \<Rightarrow> v = PNone \<or> as_num v \<noteq> None" by (simp add: wf_point_def)
  show ?case
  proof (cases "map_of kvs ''Value''")
    case None
    then have "kvs = [] \<or> kvs \<noteq> []" by simp
    with None vs p show ?thesis
      by (auto simp: List.map_filter_simps point_value_dict)
  next
    case (Some v)
    then have ne: "kvs \<noteq> []" by auto
    from w Some have "v = PNone \<or> as_num v \<noteq> None" by simp
    with Some vs p ne show ?thesis
      by (auto simp: List.map_filter_simps point_value_dict)
  qed
qed

lemma emap_as_num:
  "map as_num vs = map Some xs \<Longrightarrow>
   emap (\<lambda>v. case as_num v of None \<Rightarrow> Inl (TypeError ''mean'') | Some x \<Rightarrow> Inr x) vs = Inr xs"
proof (induction vs arbitrary: xs)
  case Nil
  then show ?case by simp
next
  case (Cons v vs)
  then obtain y ys where xs: "xs = y # ys" by (cases xs) auto
  with Cons show ?case by simp
qed

lemma mean_cpu_pct_wf:
  assumes "\<forall>p \<in> set ps. wf_point p"
  shows "mean_cpu_pct (PList ps) = Inr (cpu_pct_spec (List.map_filter point_value ps))"
proof -
  from cpu_values_wf[OF assms] obtain vs where vs: "cpu_values ps = Inr vs"
    and m: "map as_num vs = map Some (List.map_filter point_value ps)" by blast
  from m have len: "length vs = length (List.map_filter point_value ps)"
    by (metis length_map)
  show ?thesis
  proof (cases "vs = []")
    case True
    with len have "List.map_filter point_value ps = []" by simp
    with True vs show ?thesis by (simp add: mean_cpu_pct_def cpu_pct_spec_def)
  next
    case False
    with len have ne: "List.map_filter point_value ps \<noteq> []" by auto
    from False vs ne show ?thesis
      by (simp add: mean_cpu_pct_def cpu_pct_spec_def py_mean_def emap_as_num[OF m] Let_def
          mult.commute)
  qed
qed

text \<open>
  Claim C10.  For CloudWatch datapoints whose \<open>Value\<close> is absent, \<open>None\<close> or a number,
  \<open>_mean_cpu_pct\<close> returns 0 when no value is left, and otherwise, with \<open>m\<close> the mean of
  the values, \<open>100 * m\<close> when \<open>m \<le> 1\<close> and \<open>m\<close> itself when not; and this is the \<open>cpu_pct\<close>
  that \<open>recommend_instance\<close> decides on whenever it reaches its decision.
\<close>

theorem cpu_pct_from_mean:
  assumes "\<forall>p \<in> set ps. wf_point p"
  shows "mean_cpu_pct (PList ps) = Inr (cpu_pct_spec (List.map_filter point_value ps))
       \<and> (\<forall>F g l host th s.
            recommend_sizing F g l host th = Inr s \<and> host_series host ''cpu'' = Inr (PList ps)
            \<longrightarrow> s_cpu_pct s = cpu_pct_spec (List.map_filter point_value ps))"
proof -
  note m = mean_cpu_pct_wf[OF assms]
  have "s_cpu_pct s = cpu_pct_spec (List.map_filter point_value ps)"
    if a: "recommend_sizing F g l host th = Inr s" and b: "host_series host ''cpu'' = Inr (PList ps)"
    for F g l host th s
    using sizing_fields(8)[OF a] b m by auto
  with m show ?thesis by blast
qed

theorem cpu_pct_from_mean_witness:
  "mean_cpu_pct (PList ex_cpu_points) = Inr 50 \<and>
   host_series (ex_host ex_disk_swap) ''cpu'' = Inr (PList ex_cpu_points) \<and>
   recommend_sizing ex_arith ex_get_instance_specs ex_listing (ex_host ex_disk_swap)
     default_thresholds = Inr ex_sizing_swap \<and>
   s_cpu_pct ex_sizing_swap = 50"
proof -
  have wf: "\<forall>p \<in> set ex_cpu_points. wf_point p"
    by (simp add: ex_cpu_points_def wf_point_def)
  have hs: "host_series (ex_host ex_disk_swap) ''cpu'' = Inr (PList ex_cpu_points)"
    by (simp add: host_series_def ex_host_def ex_cpu_points_def)
  have v: "cpu_pct_spec (List.map_filter point_value ex_cpu_points) = 50"
    by (simp add: ex_cpu_points_def List.map_filter_simps point_value_dict cpu_pct_spec_def)
  from cpu_pct_from_mean[OF wf] v hs ex_sizing_swap_run show ?thesis
    by (simp add: ex_sizing_swap_def)
qed

text \<open>
  The rescaling at work: a mean utilisation of half a percent is read as the ratio 0.5 and
  becomes 50 percent.
\<close>

lemma mean_cpu_pct_amplifies: "mean_cpu_pct (PList [PDict [(''Value'', PNum (1 / 2))]]) = Inr 50"
  by (simp add: mean_cpu_pct_def py_mean_def)

section \<open>Properties of the MetricFetcher, MetricMerger and DerivationEngine\<close>

text \<open>
  Claim C8.  If describing the instance fails, \<open>get_instance_metrics\<close> returns the empty
  mapping, without raising and without any metric-fetch call, when the failure is the
  provider's \<open>ClientError\<close> with code \<open>InvalidInstanceID.NotFound\<close>; every other failure of
  the describe call is raised again.  The caller then goes on with an empty \<open>cloudwatch\<close>
  entry for this host.
\<close>

theorem describe_failure_outcome:
  assumes "describe_instances E instance_id = Inl e"
  shows "get_instance_metrics F E instance_id start_time end_time instance_type active period pm =
           (if \<exists>msg. e = ClientError (Some ''InvalidInstanceID.NotFound'') msg
            then (None, init_mstate) else (Some e, init_mstate))
         \<and> ms_results init_mstate = Map.empty \<and> ms_cw_calls init_mstate = []
         \<and> process_host_cloudwatch F E instance_id start_time end_time instance_type active pm
             = Map.empty"
  using assms
  by (cases e) (auto simp: get_instance_metrics_def init_mstate_def process_host_cloudwatch_def)




theorem describe_failure_outcome_witness:
  "get_instance_metrics ex_arith ex_metrics_env ''i-gone'' 0 900 [] True 300 Map.empty
     = (None, init_mstate) \<and>
   process_host_cloudwatch ex_arith ex_metrics_env ''i-gone'' 0 900 [] True Map.empty = Map.empty \<and>
   get_instance_metrics ex_arith ex_metrics_env ''i-X'' 0 900 [] True 300 Map.empty
     = (Some (ClientError (Some ''UnauthorizedOperation'') ''You are not authorized''),
        init_mstate)"
proof -
  have a: "describe_instances ex_metrics_env ''i-gone'' =
             Inl (ClientError (Some ''InvalidInstanceID.NotFound'')
                    ''The instance ID does not exist'')"
    by (simp add: ex_metrics_env_def)
  have b: "describe_instances ex_metrics_env ''i-X'' =
             Inl (ClientError (Some ''UnauthorizedOperation'') ''You are not authorized'')"
    by (simp add: ex_metrics_env_def)
  show ?thesis
    using describe_failure_outcome[OF a, of ex_arith 0 900 "[]" True 300 Map.empty]
      describe_failure_outcome[OF b, of ex_arith 0 900 "[]" True 300 Map.empty]
    by simp
qed

subsection \<open>Steps in sequence\<close>

lemma sfold_inv:
  assumes "P st" and "\<And>x s r s'. P s \<Longrightarrow> f x s = (r, s') \<Longrightarrow> P s'"
  shows "P (snd (sfold f xs st))"
  using assms(1)
proof (induction xs arbitrary: st)
  case Nil
  then show ?case by simp
next
  case (Cons x xs)
  obtain r s' where fx: "f x st = (r, s')" by (cases "f x st")
  from assms(2)[OF Cons.prems fx] have p: "P s'" .
  show ?case
  proof (cases r)
    case None
    with fx Cons.IH[OF p] show ?thesis by simp
  next
    case (Some e)
    with fx p show ?thesis by simp
  qed
qed


lemma mseq_None:
  "mseq f g st = (None, st') \<Longrightarrow> \<exists>s1. f st = (None, s1) \<and> g s1 = (None, st')"
  by (auto simp: mseq_def split: prod.splits option.splits)

lemma sfold_None_inv:
  assumes "sfold f xs st = (None, st')" and "P st"
    and "\<And>x s s'. x \<in> set xs \<Longrightarrow> P s \<Longrightarrow> f x s = (None, s') \<Longrightarrow> P s'"
  shows "P st'"
  using assms
proof (induction xs arbitrary: st)
  case Nil
  then show ?case by simp
next
  case (Cons x xs)
  obtain r s' where fx: "f x st = (r, s')" by (cases "f x st")
  with Cons.prems(1) have r: "r = None" by (cases r) auto
  with fx Cons.prems(1) have rest: "sfold f xs s' = (None, st')" by simp
  from Cons.prems(3)[OF _ Cons.prems(2) fx[unfolded r]] have p: "P s'" by simp
  show ?case
    by (rule Cons.IH[OF rest p]) (rule Cons.prems(3), simp_all)
qed

subsection \<open>The gap of a cached series\<close>

lemma latest_timestamp_Max:
  "existing \<noteq> [] \<Longrightarrow> latest_timestamp existing = Max (p_Timestamp ` set existing)"
proof -
  assume "existing \<noteq> []"
  then obtain x xs where e: "existing = x # xs" by (cases existing) auto
  have "Max (set (p_Timestamp x # map p_Timestamp xs)) = fold max (map p_Timestamp xs) (p_Timestamp x)"
    by (rule Max.set_eq_fold)
  then show ?thesis by (simp add: e latest_timestamp_def)
qed

lemma fetch_start_gap:
  "(if existing \<noteq> [] then latest_timestamp existing + of_int period else start_time)
     = gap_start existing start_time period"
  by (simp add: gap_start_def latest_timestamp_Max)



subsection \<open>One merge step\<close>

lemma fetch_metric_calls:
  "fetch_metric E label q st = (r, st') \<Longrightarrow>
     ms_cw_calls st' = ms_cw_calls st @ [(label, q)] \<and>
     ms_results st' = ms_results st \<and> ms_vol_data st' = ms_vol_data st \<and>
     ms_all_actions st' = ms_all_actions st \<and> ms_indexed st' = ms_indexed st"
  by (auto simp: fetch_metric_def Let_def split: sum.splits)

lemma merge_instance_unfold:
  "merge_instance_metric E i start_time end_time period active loaded
     (label, ns, name, unit, stat) st =
   (if active \<and> gap_start (cached loaded label) start_time period < end_time then
      (case fetch_metric E label
              \<lparr>q_Namespace = ns, q_MetricName = name, q_Dimensions = [(''InstanceId'', i)],
               q_StartTime = gap_start (cached loaded label) start_time period,
               q_EndTime = end_time, q_Period = period, q_Statistic = stat, q_Unit = unit\<rparr>
              (st\<lparr>ms_results := (ms_results st)(label \<mapsto> cached loaded label)\<rparr>) of
         (Inl e, st2) \<Rightarrow> (Some e, st2)
       | (Inr new_pts, st2) \<Rightarrow>
           (None, st2\<lparr>ms_results := (ms_results st2)(label \<mapsto> cached loaded label @ new_pts),
                      ms_all_actions := ms_all_actions st2 @
                        map (\<lambda>dp. \<lparr>ia_instance_id = i, ia_metric = label, ia_point = dp\<rparr>)
                          new_pts\<rparr>))
    else (None, st\<lparr>ms_results := (ms_results st)(label \<mapsto> cached loaded label)\<rparr>))"
  unfolding merge_instance_metric_def cached_def[symmetric] Let_def fetch_start_gap
  by simp

lemma merge_instance_cases:
  assumes "merge_instance_metric E i start_time end_time period active loaded
             (label, ns, name, unit, stat) st = (r, st')"
  shows "(\<not> (active \<and> gap_start (cached loaded label) start_time period < end_time) \<and> r = None \<and>
          ms_cw_calls st' = ms_cw_calls st \<and>
          ms_results st' = (ms_results st)(label \<mapsto> cached loaded label))
       \<or> (active \<and> gap_start (cached loaded label) start_time period < end_time \<and>
          (\<exists>q. ms_cw_calls st' = ms_cw_calls st @ [(label, q)] \<and>
               q_StartTime q = gap_start (cached loaded label) start_time period \<and>
               q_EndTime q = end_time \<and> q_Period q = period) \<and>
          (\<exists>new. ms_results st' = (ms_results st)(label \<mapsto> cached loaded label @ new)))"
proof (cases "active \<and> gap_start (cached loaded label) start_time period < end_time")
  case False
  with assms show ?thesis
    unfolding merge_instance_unfold by auto
next
  case True
  let ?q = "\<lparr>q_Namespace = ns, q_MetricName = name,
                            q_Dimensions = [(''InstanceId'', i)],
                            q_StartTime = gap_start (cached loaded label) start_time period,
                            q_EndTime = end_time,
                            q_Period = period, q_Statistic = stat, q_Unit = unit\<rparr>"
  let ?st1 = "st\<lparr>ms_results := (ms_results st)(label \<mapsto> cached loaded label)\<rparr>"
  obtain fr st2 where f: "fetch_metric E label ?q ?st1 = (fr, st2)"
    by (cases "fetch_metric E label ?q ?st1")
  from fetch_metric_calls[OF f]
  have c: "ms_cw_calls st2 = ms_cw_calls st @ [(label, ?q)]"
    and rs: "ms_results st2 = (ms_results st)(label \<mapsto> cached loaded label)" by simp_all
  have qq: "\<exists>q. ms_cw_calls st2 = ms_cw_calls st @ [(label, q)] \<and>
               q_StartTime q = gap_start (cached loaded label) start_time period \<and>
               q_EndTime q = end_time \<and> q_Period q = period"
    by (rule exI[where x="?q"]) (simp add: c)
  show ?thesis
  proof (cases fr)
    case (Inl e)
    with assms True f have "st' = st2" unfolding merge_instance_unfold by simp
    moreover have "\<exists>new. ms_results st2 = (ms_results st)(label \<mapsto> cached loaded label @ new)"
      by (rule exI[where x="[]"]) (simp add: rs)
    ultimately show ?thesis using True qq by simp
  next
    case (Inr new)
    with assms True f
    have s: "st' = st2\<lparr>ms_results := (ms_results st2)(label \<mapsto> cached loaded label @ new),
                      ms_all_actions := ms_all_actions st2 @
                        map (\<lambda>dp. \<lparr>ia_instance_id = i, ia_metric = label, ia_point = dp\<rparr>) new\<rparr>"
      unfolding merge_instance_unfold by simp
    have "\<exists>new. ms_results st' = (ms_results st)(label \<mapsto> cached loaded label @ new)"
      by (rule exI[where x=new]) (simp add: s rs)
    moreover have "ms_cw_calls st' = ms_cw_calls st2" by (simp add: s)
    ultimately show ?thesis using True qq by simp
  qed
qed

lemma merge_volume_cases:
  assumes "merge_volume_metric E i start_time end_time period active loaded pm
             (dev, vol, cm, label) st = (r, st')"
  shows "ms_results st' = ms_results st \<and>
         ((\<not> (active \<and> gap_start (cached loaded label) start_time period < end_time) \<and> r = None \<and>
           ms_cw_calls st' = ms_cw_calls st)
        \<or> (active \<and> gap_start (cached loaded label) start_time period < end_time \<and>
           (\<exists>q. ms_cw_calls st' = ms_cw_calls st @ [(label, q)] \<and>
               q_StartTime q = gap_start (cached loaded label) start_time period \<and>
               q_EndTime q = end_time \<and> q_Period q = period)))"
proof (cases "active \<and> gap_start (cached loaded label) start_time period < end_time")
  case False
  then have "\<not> active \<or> \<not> gap_start (cached loaded label) start_time period < end_time" by simp
  with assms show ?thesis
    unfolding merge_volume_metric_def cached_def[symmetric] Let_def fetch_start_gap
    by (auto split: if_splits)
next
  case True
  let ?q = "\<lparr>q_Namespace = ''AWS/EBS'', q_MetricName = vol_metric_name cm,
                            q_Dimensions = [(''VolumeId'', vol)],
                            q_StartTime = gap_start (cached loaded label) start_time period,
                            q_EndTime = end_time,
                            q_Period = period, q_Statistic = ''Sum'',
                            q_Unit = vol_metric_unit cm\<rparr>"
  obtain fr st2 where f: "fetch_metric E label ?q st = (fr, st2)"
    by (cases "fetch_metric E label ?q st")
  from fetch_metric_calls[OF f]
  have c: "ms_cw_calls st2 = ms_cw_calls st @ [(label, ?q)]"
    and rs: "ms_results st2 = ms_results st" by simp_all
  have qq: "\<exists>q. ms_cw_calls st2 = ms_cw_calls st @ [(label, q)] \<and>
               q_StartTime q = gap_start (cached loaded label) start_time period \<and>
               q_EndTime q = end_time \<and> q_Period q = period"
    by (rule exI[where x="?q"]) (simp add: c)
  from assms True f have "ms_cw_calls st' = ms_cw_calls st2 \<and> ms_results st' = ms_results st2"
    unfolding merge_volume_metric_def cached_def[symmetric] Let_def fetch_start_gap
    by (cases fr) auto
  with True rs qq show ?thesis by simp
qed


subsection \<open>The requests of a run\<close>





lemma bulk_index_same:
  "ms_cw_calls (snd (bulk_index_step E a st)) = ms_cw_calls st \<and>
   ms_results (snd (bulk_index_step E a st)) = ms_results st"
  by (auto simp: bulk_index_step_def split: option.splits)





subsection \<open>The merged series of a run\<close>






subsection \<open>The keys of the derived series\<close>


lemma instance_keys_not_mount:
  "\<not> mount_key ''cpu''" "\<not> mount_key ''network_in''" "\<not> mount_key ''network_out''"
  "\<not> mount_key ''network_total''"
  unfolding mount_key_def
  by (auto dest!: arg_cong[where f="\<lambda>k. take 3 (rev k)"])

lemma derive_mount_results:
  assumes "derive_mount F period pd st = (r, st')" and "\<not> mount_key k"
  shows "ms_results st' k = ms_results st k"
proof -
  obtain part data where pd: "pd = (part, data)" by (cases pd)
  from assms(2) have k: "k \<noteq> part @ ''_throughput''" "k \<noteq> part @ ''_operations''"
    "k \<noteq> part @ ''_idle_time_pct''"
    by (auto simp: mount_key_def)
  from assms(1) show ?thesis
    unfolding pd derive_mount_def Let_def
    by (auto simp: k split: sum.splits)
qed

lemma derive_mounts_results:
  assumes "\<not> mount_key k"
  shows "ms_results (snd (sfold (derive_mount F period) vs st)) k = ms_results st k"
proof -
  have "(\<lambda>s. ms_results s k = ms_results st k) (snd (sfold (derive_mount F period) vs st))"
    by (rule sfold_inv) (auto dest: derive_mount_results[OF _ assms])
  then show ?thesis .
qed

lemma derive_network_results:
  assumes "derive_network F E t st = (None, st')"
  shows "(k \<noteq> ''network_total'' \<and> k \<noteq> ''network_total_pct'' \<longrightarrow>
            ms_results st' k = ms_results st k)"
    and "ms_results st ''network_in'' = Some ins \<Longrightarrow> ms_results st ''network_out'' = Some outs \<Longrightarrow>
         ins \<noteq> [] \<Longrightarrow> outs \<noteq> [] \<Longrightarrow>
         ms_results st' ''network_total'' = Some (network_total F ins outs)"
    and "ms_results st ''network_total'' = None \<Longrightarrow>
         (case ms_results st ''network_in'' of None \<Rightarrow> [] | Some ps \<Rightarrow> ps) = [] \<or>
         (case ms_results st ''network_out'' of None \<Rightarrow> [] | Some ps \<Rightarrow> ps) = [] \<Longrightarrow>
         ms_results st' ''network_total'' = None"
  using assms
  by (auto simp: derive_network_def Let_def split: option.splits sum.splits if_splits)


subsection \<open>The network total\<close>





subsection \<open>The stages of a successful run\<close>

lemma run_stages:
  assumes "describe_instances E i = Inr desc"
    and "es_bulk_load E (metric_labels (mappings_of desc)) = Inr loaded"
    and "get_instance_metrics F E i start_time end_time itype active period pm = (None, st)"
  shows "\<exists>s1 s2 s3 s4.
           sfold (merge_instance_metric E i start_time end_time period active loaded) METRICS
             init_mstate = (None, s1) \<and>
           sfold (merge_volume_metric E i start_time end_time period active loaded pm)
             (vol_tasks_of (mappings_of desc)) s1 = (None, s2) \<and>
           bulk_index_step E active s2 = (None, s3) \<and>
           derive_network F E itype s3 = (None, s4) \<and>
           sfold (derive_mount F period) (ms_vol_data s4) s4 = (None, st)"
proof -
  from assms have m: "mseq (sfold (merge_instance_metric E i start_time end_time period
                              active loaded) METRICS)
              (mseq (sfold (merge_volume_metric E i start_time end_time period
                              active loaded pm)
                       (vol_tasks_of (mappings_of desc)))
              (mseq (bulk_index_step E active)
              (mseq (derive_network F E itype)
                    (\<lambda>st. sfold (derive_mount F period) (ms_vol_data st) st))))
                init_mstate = (None, st)"
    by (simp add: get_instance_metrics_def)
  from mseq_None[OF m] obtain s1 where
    s1: "sfold (merge_instance_metric E i start_time end_time period active loaded) METRICS
             init_mstate = (None, s1)"
    and m1: "mseq (sfold (merge_volume_metric E i start_time end_time period
                              active loaded pm)
                       (vol_tasks_of (mappings_of desc)))
              (mseq (bulk_index_step E active)
              (mseq (derive_network F E itype)
                    (\<lambda>st. sfold (derive_mount F period) (ms_vol_data st) st))) s1 = (None, st)"
    by blast
  from mseq_None[OF m1] obtain s2 where
    s2: "sfold (merge_volume_metric E i start_time end_time period active loaded pm)
             (vol_tasks_of (mappings_of desc)) s1 = (None, s2)"
    and m2: "mseq (bulk_index_step E active)
              (mseq (derive_network F E itype)
                    (\<lambda>st. sfold (derive_mount F period) (ms_vol_data st) st)) s2 = (None, st)"
    by blast
  from mseq_None[OF m2] obtain s3 where
    s3: "bulk_index_step E active s2 = (None, s3)"
    and m3: "mseq (derive_network F E itype)
                    (\<lambda>st. sfold (derive_mount F period) (ms_vol_data st) st) s3 = (None, st)"
    by blast
  from mseq_None[OF m3] obtain s4 where
    s4: "derive_network F E itype s3 = (None, s4)"
    and m4: "sfold (derive_mount F period) (ms_vol_data s4) s4 = (None, st)"
    by blast
  from s1 s2 s3 s4 m4 show ?thesis by blast
qed

lemma describe_cases:
  assumes "get_instance_metrics F E i start_time end_time itype active period pm = (r, st)"
  shows "st = init_mstate \<or>
         (\<exists>desc loaded. describe_instances E i = Inr desc \<and>
            es_bulk_load E (metric_labels (mappings_of desc)) = Inr loaded)"
  using assms
  by (auto simp: get_instance_metrics_def split: sum.splits exn.splits if_splits)






lemma merge_volume_no_fetch:
  assumes "\<not> (active \<and> gap_start (cached loaded label) start_time period < end_time)"
  shows "merge_volume_metric E i start_time end_time period active loaded pm
           (dev, vol, cm, label) st =
         (None, st\<lparr>ms_vol_data :=
              vol_store (ms_vol_data st)
                (if dev = ''/dev/sda1'' then ''/''
                 else case pm vol of Some p \<Rightarrow> p | None \<Rightarrow> dev)
                \<lparr>ve_device = dev, ve_volume_id = vol, ve_read_bytes = [],
                 ve_write_bytes = [], ve_read_ops = [], ve_write_ops = [],
                 ve_idle_time = []\<rparr>
                (set_series cm (cached loaded label))\<rparr>)"
  using assms
  unfolding merge_volume_metric_def cached_def[symmetric] Let_def fetch_start_gap
  by auto

lemma network_total_absent:
  assumes "get_instance_metrics F E i start_time end_time itype active period pm = (None, st)"
    and "ms_results st ''network_in'' = Some [] \<or> ms_results st ''network_out'' = Some []"
  shows "ms_results st ''network_total'' = None"
proof -
  from assms(2) have "st \<noteq> init_mstate" by (auto simp: init_mstate_def)
  with describe_cases[OF assms(1)] obtain desc loaded where
    d: "describe_instances E i = Inr desc"
    and l: "es_bulk_load E (metric_labels (mappings_of desc)) = Inr loaded" by auto
  from run_stages[OF d l assms(1)] obtain s1 s2 s3 s4 where
    s1: "sfold (merge_instance_metric E i start_time end_time period active loaded) METRICS
             init_mstate = (None, s1)"
    and s2: "sfold (merge_volume_metric E i start_time end_time period active loaded pm)
             (vol_tasks_of (mappings_of desc)) s1 = (None, s2)"
    and s3: "bulk_index_step E active s2 = (None, s3)"
    and s4: "derive_network F E itype s3 = (None, s4)"
    and m: "sfold (derive_mount F period) (ms_vol_data s4) s4 = (None, st)" by blast
  let ?P = "\<lambda>s. ms_results s ''network_total'' = None"
  have p0: "?P init_mstate" by (simp add: init_mstate_def)
  have p1: "?P s1"
  proof (rule sfold_None_inv[where P = ?P, OF s1 p0])
    fix x s s'
    assume x: "x \<in> set METRICS" and ps: "ms_results s ''network_total'' = None"
      and f: "merge_instance_metric E i start_time end_time period active loaded x s = (None, s')"
    obtain label ns name unit stat where xx: "x = (label, ns, name, unit, stat)" by (cases x)
    from x xx have "label \<noteq> ''network_total''" by (auto simp: METRICS_def)
    with merge_instance_cases[OF f[unfolded xx]] ps
    show "ms_results s' ''network_total'' = None" by auto
  qed
  have p2: "?P s2"
  proof (rule sfold_None_inv[where P = ?P, OF s2 p1])
    fix x s s'
    assume ps: "ms_results s ''network_total'' = None"
      and f: "merge_volume_metric E i start_time end_time period active loaded pm x s = (None, s')"
    obtain dev vol cm label where xx: "x = (dev, vol, cm, label)" by (cases x)
    from merge_volume_cases[OF f[unfolded xx]] ps
    show "ms_results s' ''network_total'' = None" by simp
  qed
  have p3: "?P s3" using bulk_index_same[of E active s2] s3 p2 by simp
  from m have e: "\<And>k. \<not> mount_key k \<Longrightarrow> ms_results st k = ms_results s4 k"
    using derive_mounts_results[of _ F period "ms_vol_data s4" s4] by simp
  from e assms(2) derive_network_results(1)[OF s4]
  have "ms_results s3 ''network_in'' = Some [] \<or> ms_results s3 ''network_out'' = Some []"
    by (simp add: instance_keys_not_mount)
  then have "(case ms_results s3 ''network_in'' of None \<Rightarrow> [] | Some ps \<Rightarrow> ps) = [] \<or>
         (case ms_results s3 ''network_out'' of None \<Rightarrow> [] | Some ps \<Rightarrow> ps) = []"
    by auto
  from derive_network_results(3)[OF s4 p3 this] e
  show ?thesis by (simp add: instance_keys_not_mount)
qed

end
